theory Spec2Isabelle
  imports Main "HOL-Library.Char_ord" "HOL-Library.List_Lexorder" "HOL-Library.AList"
begin

section \<open>Values shared by the route handlers\<close>

text \<open>
  The gateway of \<^verbatim>\<open>rest_api/sawtooth_rest_api/route_handlers.py\<close> moves three kinds
  of data around: byte strings (request bodies, serialized Protobuf messages), Python
  dictionaries produced by \<^verbatim>\<open>MessageToDict\<close>, and the JSON envelope it answers with.
  Byte strings and text are both \<open>string\<close>; a dictionary is an association list with
  distinct keys; a JSON value is the datatype below.
\<close>

type_synonym bytes = string

datatype json =
    JNull
  | JBool bool
  | JInt int
  | JStr string
  | JArr "json list"
  | JObj "(string \<times> json) list"

type_synonym dict = "(string \<times> json) list"

text \<open>
  The HTTP errors of \<^verbatim>\<open>sawtooth_rest_api.exceptions\<close> that the handlers name, and the
  errors which the traps of \<^verbatim>\<open>sawtooth_rest_api.error_handlers\<close> produce. A handler
  either returns such an error as its response or raises it.
\<close>

datatype trap_class =
    Unknown
  | NotReady
  | MissingHead
  | InvalidBatch
  | StatusesNotReturned
  | MissingLeaf
  | BadAddress
  | MissingBlock
  | InvalidBlockId
  | MissingBatch
  | InvalidBatchId

datatype api_error =
    WrongBodyType
  | EmptyProtobuf
  | BadProtobuf
  | BadStatusBody
  | MissingStatusId
  | ValidatorUnavailable
  | TrapError trap_class

text \<open>Everything a handler can raise: Python's own exceptions and the HTTP errors.\<close>

datatype exn =
    KeyError
  | TypeError
  | ValueError
  | BinasciiError
  | DecodeError
  | HTTPError api_error

subsection \<open>Python string operations\<close>

text \<open>\<^verbatim>\<open>sep.join(xs)\<close>\<close>

fun join :: "string \<Rightarrow> string list \<Rightarrow> string" where
  "join sep [] = []"
| "join sep [x] = x"
| "join sep (x # y # ys) = x @ sep @ join sep (y # ys)"

text \<open>\<^verbatim>\<open>s.split(c)\<close> for a one-character separator: never the empty list.\<close>

fun split :: "char \<Rightarrow> string \<Rightarrow> string list" where
  "split c [] = [[]]"
| "split c (x # xs) =
     (if x = c then [] # split c xs
      else (case split c xs of [] \<Rightarrow> [[x]] | w # ws \<Rightarrow> (x # w) # ws))"

text \<open>\<^verbatim>\<open>s.lower()\<close> on ASCII text: only the letters A to Z change.\<close>

definition lower_char :: "char \<Rightarrow> char" where
  "lower_char c =
     (let n = (of_char c :: nat) in if 65 \<le> n \<and> n \<le> 90 then char_of (n + 32) else c)"

definition lower :: "string \<Rightarrow> string" where
  "lower s = map lower_char s"

text \<open>
  \<^verbatim>\<open>s.replace(old, new)\<close>: every non-overlapping occurrence of \<open>old\<close>, found from the
  left, is replaced. For an empty \<open>old\<close> Python puts \<open>new\<close> before every character and
  at the end.
\<close>

function replace_from :: "string \<Rightarrow> string \<Rightarrow> string \<Rightarrow> string" where
  "replace_from old new [] = []"
| "replace_from old new (c # cs) =
     (if old \<noteq> [] \<and> take (length old) (c # cs) = old
      then new @ replace_from old new (drop (length old) (c # cs))
      else c # replace_from old new cs)"
  by pat_completeness auto
termination
  by (relation "measure (\<lambda>(old, new, s). length s)") auto

definition replace :: "string \<Rightarrow> string \<Rightarrow> string \<Rightarrow> string" where
  "replace s old new =
     (if old = [] then new @ concat (map (\<lambda>c. c # new) s) else replace_from old new s)"

section \<open>The request and the handler\<close>

text \<open>
  What the handlers read of an aiohttp request. \<open>query\<close> is \<^verbatim>\<open>request.url.query\<close>, a
  multi-dictionary: its items in URL order, duplicates kept, \<^verbatim>\<open>get\<close> and indexing
  returning the first value of a key. \<open>url_str\<close> is \<^verbatim>\<open>str(request.url)\<close>. \<open>headers\<close>
  is the case-insensitive header multi-dictionary, \<open>match_info\<close> the parts of the path
  that the route has named. \<open>read\<close> is the body that
  \<^verbatim>\<open>await request.read()\<close> gives and \<open>json_body\<close> what \<^verbatim>\<open>await request.json()\<close>
  gives (\<open>None\<close> when the body is not JSON and the call raises).
\<close>

record url =
  url_str :: string
  query :: "(string \<times> string) list"

record request =
  request_method :: string
  scheme :: string
  host :: string
  path :: string
  url :: url
  headers :: "(string \<times> string) list"
  match_info :: "(string \<times> string) list"
  read :: bytes
  json_body :: "json option"

text \<open>\<^verbatim>\<open>request.headers[name]\<close>: the first header of that name, compared without case.\<close>

definition headers_get :: "(string \<times> string) list \<Rightarrow> string \<Rightarrow> string option" where
  "headers_get hs name = map_of (map (\<lambda>(k, v). (lower k, v)) hs) (lower name)"

subsection \<open>The connection to the validator\<close>

text \<open>
  The message types of \<^verbatim>\<open>validator_pb2.Message\<close> that the handlers send.
\<close>

datatype message_type =
    CLIENT_BATCH_SUBMIT_REQUEST
  | CLIENT_BATCH_STATUS_REQUEST
  | CLIENT_STATE_LIST_REQUEST
  | CLIENT_STATE_GET_REQUEST
  | CLIENT_BLOCK_LIST_REQUEST
  | CLIENT_BLOCK_GET_REQUEST
  | CLIENT_BATCH_LIST_REQUEST
  | CLIENT_BATCH_GET_REQUEST

text \<open>
  Modelled from the spec: the \<^verbatim>\<open>Stream\<close> and its futures belong to
  \<^verbatim>\<open>sawtooth_sdk.client\<close>, which is not among the sources. The contract is
  \<^verbatim>\<open>send(messageType, binaryPayload)\<close> giving a future, and
  \<^verbatim>\<open>Future.result(timeout)\<close> giving the reply or raising a timeout error. A reply
  is either a result that holds the content, or the error that a teardown of the
  connection resolves every pending future with, whose \<^verbatim>\<open>content\<close> raises
  \<^verbatim>\<open>ValidatorConnectionError\<close>. A future is the function from the timeout to what
  \<^verbatim>\<open>result\<close> does: \<open>None\<close> is \<^verbatim>\<open>FutureTimeoutError\<close>. The stream records what
  was sent, \<open>answer\<close> is the validator behind it.
\<close>

datatype stream_reply = FutureResult bytes | FutureError

type_synonym future = "int \<Rightarrow> stream_reply option"

record validator_stream =
  answer :: "message_type \<Rightarrow> bytes \<Rightarrow> future"
  sent :: "(message_type \<times> bytes) list"

definition send :: "validator_stream \<Rightarrow> message_type \<Rightarrow> bytes \<Rightarrow> future \<times> validator_stream" where
  "send s message_type content =
     (answer s message_type content, s\<lparr>sent := sent s @ [(message_type, content)]\<rparr>)"

text \<open>The \<^verbatim>\<open>RouteHandler\<close> object: \<^verbatim>\<open>self._stream\<close> and \<^verbatim>\<open>self._timeout\<close>.\<close>

record route_handler =
  stream :: validator_stream
  self_timeout :: int

text \<open>
  \<^verbatim>\<open>_try_validator_request\<close>. The content is a Protobuf message, serialized first, or
  bytes already; \<open>SerializeToString\<close> is the message class's serializer.
\<close>

datatype 'q content = Message 'q | Bytes bytes

definition try_validator_request ::
  "('q \<Rightarrow> bytes) \<Rightarrow> route_handler \<Rightarrow> message_type \<Rightarrow> 'q content
     \<Rightarrow> (exn + bytes) \<times> route_handler" where
  "try_validator_request SerializeToString self message_type content =
     (let content = (case content of Message m \<Rightarrow> SerializeToString m | Bytes b \<Rightarrow> b);
          (future, stream') = send (stream self) message_type content;
          self = self\<lparr>stream := stream'\<rparr>
      in case future (self_timeout self) of
           None \<Rightarrow> (Inl (HTTPError ValidatorUnavailable), self)
         | Some response \<Rightarrow>
             (case response of
                FutureResult c \<Rightarrow> (Inr c, self)
              | FutureError \<Rightarrow> (Inl (HTTPError ValidatorUnavailable), self)))"

subsection \<open>Error traps\<close>

text \<open>
  Modelled from the spec: \<^verbatim>\<open>sawtooth_rest_api.error_handlers\<close> is not among the
  sources. A trap is a status code plus the error it produces; \<^verbatim>\<open>check(status)\<close>
  raises the error of the trap's class when the status is the trap's code and returns
  otherwise. \<open>None\<close> is the normal return.
\<close>

record trap =
  trap_error :: trap_class
  trigger :: nat

definition check :: "trap \<Rightarrow> nat \<Rightarrow> exn option" where
  "check t status = (if status = trigger t then Some (HTTPError (TrapError (trap_error t))) else None)"

text \<open>The loop \<^verbatim>\<open>for trap in traps: trap.check(parsed.status)\<close>.\<close>

fun check_all :: "trap list \<Rightarrow> nat \<Rightarrow> exn option" where
  "check_all [] status = None"
| "check_all (t # ts) status =
     (case check t status of Some e \<Rightarrow> Some e | None \<Rightarrow> check_all ts status)"

text \<open>
  A reply class of \<^verbatim>\<open>client_pb2\<close>, as \<^verbatim>\<open>_try_response_parse\<close> uses it: its parser
  (\<open>None\<close> is \<^verbatim>\<open>DecodeError\<close>), the status of a parsed message, the three status codes
  that a class may or may not define (\<open>None\<close> is the \<^verbatim>\<open>AttributeError\<close> of a class
  without the code), and what \<^verbatim>\<open>MessageToDict\<close> makes of a parsed message.
\<close>

record ('m, 'd) proto =
  ParseFromString :: "bytes \<Rightarrow> 'm option"
  status :: "'m \<Rightarrow> nat"
  INTERNAL_ERROR :: "nat option"
  NOT_READY :: "nat option"
  NO_ROOT :: "nat option"
  MessageToDict :: "'m \<Rightarrow> 'd"

text \<open>
  \<^verbatim>\<open>_try_response_parse\<close>; \<open>traps\<close> is \<open>None\<close> when the caller passes none.
\<close>

definition try_response_parse ::
  "('m, 'd) proto \<Rightarrow> bytes \<Rightarrow> trap list option \<Rightarrow> exn + 'd" where
  "try_response_parse proto response traps =
     (case ParseFromString proto response of
        None \<Rightarrow> Inl DecodeError
      | Some parsed \<Rightarrow>
          (let traps = (case traps of None \<Rightarrow> [] | Some ts \<Rightarrow> ts);
               traps = (case INTERNAL_ERROR proto of
                          Some c \<Rightarrow> traps @ [\<lparr>trap_error = Unknown, trigger = c\<rparr>]
                        | None \<Rightarrow> traps);
               traps = (case NOT_READY proto of
                          Some c \<Rightarrow> traps @ [\<lparr>trap_error = NotReady, trigger = c\<rparr>]
                        | None \<Rightarrow> traps);
               traps = (case NO_ROOT proto of
                          Some c \<Rightarrow> traps @ [\<lparr>trap_error = MissingHead, trigger = c\<rparr>]
                        | None \<Rightarrow> traps)
           in case check_all traps (status proto parsed) of
                Some e \<Rightarrow> Inl e
              | None \<Rightarrow> Inr (MessageToDict proto parsed)))"

text \<open>\<^verbatim>\<open>_query_validator\<close>\<close>

definition query_validator ::
  "('q \<Rightarrow> bytes) \<Rightarrow> route_handler \<Rightarrow> message_type \<Rightarrow> ('m, 'd) proto \<Rightarrow> 'q content
     \<Rightarrow> trap list option \<Rightarrow> (exn + 'd) \<times> route_handler" where
  "query_validator SerializeToString self req_type resp_proto content traps =
     (case try_validator_request SerializeToString self req_type content of
        (Inl e, self) \<Rightarrow> (Inl e, self)
      | (Inr response, self) \<Rightarrow> (try_response_parse resp_proto response traps, self))"

subsection \<open>The wait parameter\<close>

text \<open>
  Both validator queries that can wait carry the fields \<open>wait_for_commit\<close> and
  \<open>timeout\<close>; \<^verbatim>\<open>_set_wait\<close> is written for any message that has them.
\<close>

record wait_fields =
  wait_for_commit :: bool
  timeout :: int

text \<open>
  What \<^verbatim>\<open>_set_wait\<close> uses and is not among the sources: Python's \<^verbatim>\<open>int()\<close> on a
  text (\<open>None\<close> is \<^verbatim>\<open>ValueError\<close>); \<^verbatim>\<open>int(t * 0.95)\<close>, a product in floating point,
  for the handler's timeout \<open>t\<close>; and the range of the Protobuf field \<open>timeout\<close>, whose
  declaration is in \<^verbatim>\<open>client_pb2\<close>: assigning an integer that the field does not
  accept raises \<^verbatim>\<open>ValueError\<close>.
\<close>

record wait_lib =
  py_int :: "string \<Rightarrow> int option"
  scaled_timeout :: "int \<Rightarrow> int"
  timeout_accepts :: "int \<Rightarrow> bool"

text \<open>
  \<^verbatim>\<open>_set_wait\<close>. The \<^verbatim>\<open>try\<close> holds both \<^verbatim>\<open>int(wait)\<close> and the assignment to the
  field, so a text that is no integer and an integer that the field rejects end in
  the same \<^verbatim>\<open>except\<close> clause. The assignment in that clause is not guarded: when
  the field rejects the default as well, the \<^verbatim>\<open>ValueError\<close> leaves the method.
\<close>

definition set_wait ::
  "wait_lib \<Rightarrow> route_handler \<Rightarrow> request \<Rightarrow> 'a wait_fields_scheme
     \<Rightarrow> exn + 'a wait_fields_scheme" where
  "set_wait lib self request validator_query =
     (let wait = (case map_of (query (url request)) ''wait'' of None \<Rightarrow> ''false'' | Some w \<Rightarrow> w)
      in if lower wait \<noteq> ''false''
         then
           (let validator_query = validator_query\<lparr>wait_for_commit := True\<rparr>;
                assigned = (case py_int lib wait of
                              None \<Rightarrow> None
                            | Some n \<Rightarrow> if timeout_accepts lib n then Some n else None)
            in case assigned of
                 Some n \<Rightarrow> Inr (validator_query\<lparr>timeout := n\<rparr>)
               | None \<Rightarrow>
                   (let d = scaled_timeout lib (self_timeout self)
                    in if timeout_accepts lib d then Inr (validator_query\<lparr>timeout := d\<rparr>)
                       else Inl ValueError))
         else Inr validator_query)"

subsection \<open>Metadata: head and link\<close>

text \<open>
  A reply decoded by \<^verbatim>\<open>message_to_dict\<close>, as far as \<^verbatim>\<open>_get_metadata\<close> reads it:
  \<open>head_id\<close> is \<open>None\<close> when the dictionary has no such key (the reply type has no
  such field) and the field's text otherwise, the empty text when the validator left
  the field unset.
\<close>

record reply =
  head_id :: "string option"

definition get_metadata :: "request \<Rightarrow> 'a reply_scheme \<Rightarrow> dict" where
  "get_metadata request response =
     (case head_id response of
        None \<Rightarrow> [(''link'', JStr (url_str (url request)))]
      | Some head \<Rightarrow>
          if head = [] then [(''link'', JStr (url_str (url request)))]
          else
            (let link = scheme request @ ''://'' @ host request @ path request
                          @ ''?head='' @ head;
                 queries = query (url request);
                 headless = map (\<lambda>(k, v). k @ ''='' @ v)
                              (filter (\<lambda>(k, v). k \<noteq> ''head'') queries);
                 link = (if length headless > 0 then link @ ''&'' @ join ''&'' headless
                         else link)
             in [(''head'', JStr head), (''link'', JStr link)]))"

subsection \<open>The response envelope\<close>

text \<open>
  What a handler returns: one of the HTTP errors, or the \<^verbatim>\<open>web.Response\<close> that
  \<^verbatim>\<open>_wrap_response\<close> builds, with its status, content type and body.
\<close>

datatype web_response =
    ErrorResponse api_error
  | Response (response_status: nat) (content_type: string) (body: json)

text \<open>
  \<^verbatim>\<open>json.dumps(envelope, indent=2, separators=(',', ': '), sort_keys=True)\<close>. The body
  is kept as the JSON value in the order in which its members are written: with
  \<^verbatim>\<open>sort_keys\<close> the members of every object come out sorted by key. The layout of the
  text (indentation, separators, escapes) is the library's and is not modelled.
\<close>

primrec json_dumps :: "json \<Rightarrow> json" where
  "json_dumps JNull = JNull"
| "json_dumps (JBool b) = JBool b"
| "json_dumps (JInt i) = JInt i"
| "json_dumps (JStr s) = JStr s"
| "json_dumps (JArr xs) = JArr (map json_dumps xs)"
| "json_dumps (JObj kvs) = JObj (sort_key fst (map (map_prod id json_dumps) kvs))"

text \<open>The keys of a written object, in the order written.\<close>

fun keys :: "json \<Rightarrow> string list" where
  "keys (JObj kvs) = map fst kvs"
| "keys _ = []"

text \<open>Every object, at every depth, has its keys in ascending order.\<close>

primrec keys_sorted :: "json \<Rightarrow> bool" where
  "keys_sorted JNull = True"
| "keys_sorted (JBool b) = True"
| "keys_sorted (JInt i) = True"
| "keys_sorted (JStr s) = True"
| "keys_sorted (JArr xs) = list_all id (map keys_sorted xs)"
| "keys_sorted (JObj kvs) =
     (sorted (map fst kvs) \<and> list_all snd (map (map_prod id keys_sorted) kvs))"

text \<open>
  \<^verbatim>\<open>_wrap_response\<close>. \<open>data\<close> and \<open>metadata\<close> are \<open>None\<close> for Python's \<^verbatim>\<open>None\<close>;
  \<^verbatim>\<open>metadata or {}\<close> is the empty dictionary for \<^verbatim>\<open>None\<close> and for an empty one.
\<close>

definition wrap_response :: "json option \<Rightarrow> dict option \<Rightarrow> nat \<Rightarrow> web_response" where
  "wrap_response data metadata status_code =
     (let envelope = (case metadata of None \<Rightarrow> [] | Some m \<Rightarrow> m);
          envelope = (case data of None \<Rightarrow> envelope
                      | Some d \<Rightarrow> AList.update ''data'' d envelope)
      in Response status_code ''application/json'' (json_dumps (JObj envelope)))"

subsection \<open>Submitting batches and asking for their status\<close>

text \<open>
  A batch of a submitted \<^verbatim>\<open>BatchList\<close>, of which the handler reads the signature.
\<close>

record batch =
  header_signature :: string

text \<open>
  The two validator queries and the decoded reply of both, a dictionary from batch id
  to the name of its status. \<^verbatim>\<open>message_to_dict\<close> asks for the fields with default
  values, so the key \<open>batch_statuses\<close> is there for every reply and holds the empty
  dictionary when the reply has no statuses; neither reply has a \<open>head_id\<close>.
\<close>

record submit_request = wait_fields +
  batches :: "batch list"

record status_request = wait_fields +
  batch_ids :: "string list"

record statuses_reply = reply +
  batch_statuses :: "(string \<times> string) list"

text \<open>
  What is not among the sources and the two handlers use: the parser of
  \<^verbatim>\<open>BatchList\<close> (\<open>None\<close> is \<^verbatim>\<open>DecodeError\<close>), the serializers of the two queries,
  the two reply classes, the traps that \<^verbatim>\<open>error_handlers.InvalidBatch()\<close> and
  \<^verbatim>\<open>error_handlers.StatusesNotReturned()\<close> construct, and what \<^verbatim>\<open>_set_wait\<close>
  needs.
\<close>

record ('a, 'b) client_pb2 =
  BatchList_ParseFromString :: "bytes \<Rightarrow> batch list option"
  ClientBatchSubmitRequest_SerializeToString :: "submit_request \<Rightarrow> bytes"
  ClientBatchSubmitResponse :: "('a, statuses_reply) proto"
  ClientBatchStatusRequest_SerializeToString :: "status_request \<Rightarrow> bytes"
  ClientBatchStatusResponse :: "('b, statuses_reply) proto"
  InvalidBatch_trap :: trap
  StatusesNotReturned_trap :: trap
  waiting :: wait_lib

text \<open>A status dictionary as the JSON object it is written as.\<close>

definition statuses_json :: "(string \<times> string) list \<Rightarrow> json" where
  "statuses_json m = JObj (map (\<lambda>(k, s). (k, JStr s)) m)"

text \<open>
  \<^verbatim>\<open>submit_batches\<close>. Indexing the headers raises \<^verbatim>\<open>KeyError\<close> when there is no such
  header.
\<close>

definition submit_batches ::
  "('a, 'b) client_pb2 \<Rightarrow> route_handler \<Rightarrow> request
     \<Rightarrow> (exn + web_response) \<times> route_handler" where
  "submit_batches pb self request =
     (case headers_get (headers request) ''Content-Type'' of
        None \<Rightarrow> (Inl KeyError, self)
      | Some ct \<Rightarrow>
          if ct \<noteq> ''application/octet-stream'' then (Inr (ErrorResponse WrongBodyType), self)
          else
            (let payload = read request
             in if payload = [] then (Inr (ErrorResponse EmptyProtobuf), self)
                else
                  (case BatchList_ParseFromString pb payload of
                     None \<Rightarrow> (Inr (ErrorResponse BadProtobuf), self)
                   | Some batch_list \<Rightarrow>
                       (let error_traps = [InvalidBatch_trap pb]
                        in case set_wait (waiting pb) self request
                                  \<lparr>wait_for_commit = False, timeout = 0, batches = batch_list\<rparr> of
                             Inl e \<Rightarrow> (Inl e, self)
                           | Inr validator_query \<Rightarrow>
                        (case query_validator (ClientBatchSubmitRequest_SerializeToString pb)
                                  self CLIENT_BATCH_SUBMIT_REQUEST (ClientBatchSubmitResponse pb)
                                  (Message validator_query) (Some error_traps) of
                             (Inl e, self) \<Rightarrow> (Inl e, self)
                           | (Inr response, self) \<Rightarrow>
                               (let data = (if batch_statuses response = [] then None
                                            else Some (batch_statuses response));
                                    link = scheme request @ ''://'' @ host request
                                             @ ''/batch_status?id=''
                                             @ join '','' (map header_signature batch_list)
                                in case data of
                                     None \<Rightarrow>
                                       (Inr (wrap_response None
                                               (Some [(''link'', JStr link)]) 202), self)
                                   | Some d \<Rightarrow>
                                       if list_ex (\<lambda>(_, s). s \<noteq> ''COMMITTED'') d
                                       then (Inr (wrap_response (Some (statuses_json d))
                                                    (Some [(''link'', JStr link)]) 200), self)
                                       else (Inr (wrap_response None
                                                    (Some [(''link'', JStr
                                                       (replace link ''batch_status'' ''batches''))])
                                                    201), self)))))))"

text \<open>
  The first part of \<^verbatim>\<open>list_statuses\<close>, which finds the batch ids: it raises, returns
  an error response, or goes on with the ids. For a \<open>POST\<close> the ids are the decoded JSON
  body, of which only the first element is looked at; otherwise they are the \<open>id\<close>
  query parameter split at the commas.
\<close>

datatype 'a step = Raise exn | Return web_response | Continue 'a

definition status_ids :: "request \<Rightarrow> json list step" where
  "status_ids request =
     (if request_method request = ''POST''
      then
        (case headers_get (headers request) ''Content-Type'' of
           None \<Rightarrow> Raise KeyError
         | Some ct \<Rightarrow>
             if ct \<noteq> ''application/json'' then Return (ErrorResponse BadStatusBody)
             else
               (case json_body request of
                  None \<Rightarrow> Raise ValueError
                | Some ids \<Rightarrow>
                    (case ids of
                       JArr xs \<Rightarrow>
                         (case xs of
                            [] \<Rightarrow> Return (ErrorResponse MissingStatusId)
                          | x # _ \<Rightarrow>
                              (case x of
                                 JStr _ \<Rightarrow> Continue xs
                               | _ \<Rightarrow> Return (ErrorResponse BadStatusBody)))
                     | _ \<Rightarrow> Return (ErrorResponse BadStatusBody))))
      else
        (case map_of (query (url request)) ''id'' of
           None \<Rightarrow> Return (ErrorResponse MissingStatusId)
         | Some v \<Rightarrow> Continue (map JStr (split CHR '','' v))))"

text \<open>
  \<^verbatim>\<open>client_pb2.ClientBatchStatusRequest(batch_ids=ids)\<close>: the field is a repeated
  string, and Protobuf raises \<^verbatim>\<open>TypeError\<close> for an element that is no string.
\<close>

fun strings_of :: "json list \<Rightarrow> string list option" where
  "strings_of [] = Some []"
| "strings_of (JStr s # js) = map_option ((#) s) (strings_of js)"
| "strings_of (_ # js) = None"

definition ClientBatchStatusRequest :: "json list \<Rightarrow> exn + status_request" where
  "ClientBatchStatusRequest ids =
     (case strings_of ids of
        None \<Rightarrow> Inl TypeError
      | Some ss \<Rightarrow> Inr \<lparr>wait_for_commit = False, timeout = 0, batch_ids = ss\<rparr>)"

text \<open>\<^verbatim>\<open>list_statuses\<close>\<close>

definition list_statuses ::
  "('a, 'b) client_pb2 \<Rightarrow> route_handler \<Rightarrow> request
     \<Rightarrow> (exn + web_response) \<times> route_handler" where
  "list_statuses pb self request =
     (let error_traps = [StatusesNotReturned_trap pb]
      in case status_ids request of
           Raise e \<Rightarrow> (Inl e, self)
         | Return r \<Rightarrow> (Inr r, self)
         | Continue ids \<Rightarrow>
             (case ClientBatchStatusRequest ids of
                Inl e \<Rightarrow> (Inl e, self)
              | Inr validator_query \<Rightarrow>
                  (case set_wait (waiting pb) self request validator_query of
                     Inl e \<Rightarrow> (Inl e, self)
                   | Inr validator_query \<Rightarrow>
                  (case query_validator (ClientBatchStatusRequest_SerializeToString pb)
                             self CLIENT_BATCH_STATUS_REQUEST (ClientBatchStatusResponse pb)
                             (Message validator_query) (Some error_traps) of
                        (Inl e, self) \<Rightarrow> (Inl e, self)
                      | (Inr response, self) \<Rightarrow>
                          (let metadata = (if request_method request \<noteq> ''POST''
                                           then Some (get_metadata request response)
                                           else None)
                           in (Inr (wrap_response
                                      (Some (statuses_json (batch_statuses response)))
                                      metadata 200), self))))))"

subsection \<open>Expanding headers\<close>

text \<open>
  A block, batch or transaction as \<^verbatim>\<open>message_to_dict\<close> gives it: the \<open>header\<close>, which
  arrives as base64 text and leaves as a dictionary, the child records, and the other
  fields. \<open>children\<close> is the entry \<open>batches\<close> of a block and the entry \<open>transactions\<close>
  of a batch, \<open>None\<close> when the key is missing; a transaction has no children.
\<close>

datatype header_value = Encoded string | Decoded dict

record 'c resource =
  header :: header_value
  children :: 'c
  other_fields :: dict

type_synonym transaction = "unit resource"
type_synonym batch_record = "transaction list option resource"
type_synonym block = "batch_record list option resource"

text \<open>
  The header classes, and what is not among the sources: \<^verbatim>\<open>base64.b64decode\<close>
  (\<open>None\<close> is \<^verbatim>\<open>binascii.Error\<close>), the parser of each header class (\<open>None\<close> is
  \<^verbatim>\<open>DecodeError\<close>) and \<^verbatim>\<open>MessageToDict\<close> on a parsed header.
\<close>

datatype header_proto = BlockHeader | BatchHeader | TransactionHeader

record 'h header_lib =
  b64decode :: "string \<Rightarrow> bytes option"
  Header_ParseFromString :: "header_proto \<Rightarrow> bytes \<Rightarrow> 'h option"
  Header_MessageToDict :: "'h \<Rightarrow> dict"

text \<open>
  \<^verbatim>\<open>_parse_header\<close>. A header that is a dictionary already is no argument for
  \<^verbatim>\<open>b64decode\<close>, which raises \<^verbatim>\<open>TypeError\<close>.
\<close>

definition parse_header ::
  "'h header_lib \<Rightarrow> header_proto \<Rightarrow> ('c, 'z) resource_scheme
     \<Rightarrow> exn + ('c, 'z) resource_scheme" where
  "parse_header lib header_proto obj =
     (case header obj of
        Decoded _ \<Rightarrow> Inl TypeError
      | Encoded s \<Rightarrow>
          (case b64decode lib s of
             None \<Rightarrow> Inl BinasciiError
           | Some header_bytes \<Rightarrow>
               (case Header_ParseFromString lib header_proto header_bytes of
                  None \<Rightarrow> Inl DecodeError
                | Some h \<Rightarrow> Inr (obj\<lparr>header := Decoded (Header_MessageToDict lib h)\<rparr>))))"

text \<open>A list comprehension whose body may raise: the first exception ends it.\<close>

fun map_raise :: "('a \<Rightarrow> exn + 'b) \<Rightarrow> 'a list \<Rightarrow> exn + 'b list" where
  "map_raise f [] = Inr []"
| "map_raise f (x # xs) =
     (case f x of
        Inl e \<Rightarrow> Inl e
      | Inr y \<Rightarrow> (case map_raise f xs of Inl e \<Rightarrow> Inl e | Inr ys \<Rightarrow> Inr (y # ys)))"

text \<open>\<^verbatim>\<open>_expand_transaction\<close>, \<^verbatim>\<open>_expand_batch\<close> and \<^verbatim>\<open>_expand_block\<close>\<close>

definition expand_transaction :: "'h header_lib \<Rightarrow> transaction \<Rightarrow> exn + transaction" where
  "expand_transaction lib transaction = parse_header lib TransactionHeader transaction"

definition expand_batch :: "'h header_lib \<Rightarrow> batch_record \<Rightarrow> exn + batch_record" where
  "expand_batch lib batch =
     (case parse_header lib BatchHeader batch of
        Inl e \<Rightarrow> Inl e
      | Inr batch \<Rightarrow>
          (case children batch of
             None \<Rightarrow> Inr batch
           | Some ts \<Rightarrow>
               (case map_raise (expand_transaction lib) ts of
                  Inl e \<Rightarrow> Inl e
                | Inr ts' \<Rightarrow> Inr (batch\<lparr>children := Some ts'\<rparr>))))"

definition expand_block :: "'h header_lib \<Rightarrow> block \<Rightarrow> exn + block" where
  "expand_block lib block =
     (case parse_header lib BlockHeader block of
        Inl e \<Rightarrow> Inl e
      | Inr block \<Rightarrow>
          (case children block of
             None \<Rightarrow> Inr block
           | Some bs \<Rightarrow>
               (case map_raise (expand_batch lib) bs of
                  Inl e \<Rightarrow> Inl e
                | Inr bs' \<Rightarrow> Inr (block\<lparr>children := Some bs'\<rparr>))))"

subsection \<open>Reading state, blocks and batches\<close>

text \<open>
  \<^verbatim>\<open>_get_filter_ids\<close> returns \<^verbatim>\<open>filter_ids and filter_ids.split(',')\<close>: Python's
  \<^verbatim>\<open>None\<close> without an \<open>id\<close> parameter, the empty text for an empty one, and the
  list of the parts otherwise.
\<close>

datatype py_ids = NoIds | EmptyText | IdList "string list"

definition get_filter_ids :: "request \<Rightarrow> py_ids" where
  "get_filter_ids request =
     (case map_of (query (url request)) ''id'' of
        None \<Rightarrow> NoIds
      | Some filter_ids \<Rightarrow>
          if filter_ids = [] then EmptyText else IdList (split CHR '','' filter_ids))"

text \<open>
  The queries of the six reading handlers, with the arguments that the handlers give
  them, and the decoded replies as far as the handlers read them. \<open>leaves_entry\<close> is
  read with \<^verbatim>\<open>get\<close> and a default; \<open>block_entry\<close> and \<open>batch_entry\<close> are message
  fields, which \<^verbatim>\<open>MessageToDict\<close> leaves out when they are not set, so that indexing
  raises \<^verbatim>\<open>KeyError\<close>; the other entries are always in the dictionary.
\<close>

datatype read_request =
    ClientStateListRequest "string option" "string option"
  | ClientStateGetRequest "string option" string
  | ClientBlockListRequest "string option" py_ids
  | ClientBlockGetRequest string
  | ClientBatchListRequest "string option" py_ids
  | ClientBatchGetRequest string

record state_list_reply = reply +
  leaves_entry :: "json list option"

record state_get_reply = reply +
  value_entry :: string

record block_list_reply = reply +
  blocks_entry :: "block list"

record block_get_reply = reply +
  block_entry :: "block option"

record batch_list_reply = reply +
  batches_entry :: "batch_record list"

record batch_get_reply = reply +
  batch_entry :: "batch_record option"

text \<open>
  What is not among the sources and the six handlers use: the serializer of the
  queries, the reply classes, the traps that \<^verbatim>\<open>error_handlers\<close> constructs, and
  the header classes.
\<close>

record ('m, 'h) read_pb2 =
  SerializeToString :: "read_request \<Rightarrow> bytes"
  ClientStateListResponse :: "('m, state_list_reply) proto"
  ClientStateGetResponse :: "('m, state_get_reply) proto"
  ClientBlockListResponse :: "('m, block_list_reply) proto"
  ClientBlockGetResponse :: "('m, block_get_reply) proto"
  ClientBatchListResponse :: "('m, batch_list_reply) proto"
  ClientBatchGetResponse :: "('m, batch_get_reply) proto"
  MissingLeaf_trap :: trap
  BadAddress_trap :: trap
  MissingBlock_trap :: trap
  InvalidBlockId_trap :: trap
  MissingBatch_trap :: trap
  InvalidBatchId_trap :: trap
  header_classes :: "'h header_lib"

text \<open>An expanded record as the JSON object that the envelope holds.\<close>

definition header_json :: "header_value \<Rightarrow> json" where
  "header_json hv = (case hv of Encoded s \<Rightarrow> JStr s | Decoded d \<Rightarrow> JObj d)"

definition transaction_json :: "transaction \<Rightarrow> json" where
  "transaction_json t = JObj ((''header'', header_json (header t)) # other_fields t)"

definition batch_json :: "batch_record \<Rightarrow> json" where
  "batch_json b =
     JObj ((''header'', header_json (header b))
           # (case children b of
                None \<Rightarrow> []
              | Some ts \<Rightarrow> [(''transactions'', JArr (map transaction_json ts))])
           @ other_fields b)"

definition block_json :: "block \<Rightarrow> json" where
  "block_json blk =
     JObj ((''header'', header_json (header blk))
           # (case children blk of
                None \<Rightarrow> []
              | Some bs \<Rightarrow> [(''batches'', JArr (map batch_json bs))])
           @ other_fields blk)"

text \<open>\<^verbatim>\<open>list_state\<close>\<close>

definition list_state ::
  "('m, 'h) read_pb2 \<Rightarrow> route_handler \<Rightarrow> request \<Rightarrow> (exn + web_response) \<times> route_handler" where
  "list_state pb self request =
     (let head = map_of (query (url request)) ''head'';
          address = map_of (query (url request)) ''address''
      in case query_validator (SerializeToString pb) self CLIENT_STATE_LIST_REQUEST
                (ClientStateListResponse pb) (Message (ClientStateListRequest head address))
                None of
           (Inl e, self) \<Rightarrow> (Inl e, self)
         | (Inr response, self) \<Rightarrow>
             (Inr (wrap_response
                     (Some (JArr (case leaves_entry response of None \<Rightarrow> [] | Some ls \<Rightarrow> ls)))
                     (Some (get_metadata request response)) 200), self))"

text \<open>\<^verbatim>\<open>fetch_state\<close>\<close>

definition fetch_state ::
  "('m, 'h) read_pb2 \<Rightarrow> route_handler \<Rightarrow> request \<Rightarrow> (exn + web_response) \<times> route_handler" where
  "fetch_state pb self request =
     (let error_traps = [MissingLeaf_trap pb, BadAddress_trap pb];
          address = (case map_of (match_info request) ''address'' of None \<Rightarrow> [] | Some a \<Rightarrow> a);
          head = map_of (query (url request)) ''head''
      in case query_validator (SerializeToString pb) self CLIENT_STATE_GET_REQUEST
                (ClientStateGetResponse pb) (Message (ClientStateGetRequest head address))
                (Some error_traps) of
           (Inl e, self) \<Rightarrow> (Inl e, self)
         | (Inr response, self) \<Rightarrow>
             (Inr (wrap_response (Some (JStr (value_entry response)))
                     (Some (get_metadata request response)) 200), self))"

text \<open>\<^verbatim>\<open>list_blocks\<close>\<close>

definition list_blocks ::
  "('m, 'h) read_pb2 \<Rightarrow> route_handler \<Rightarrow> request \<Rightarrow> (exn + web_response) \<times> route_handler" where
  "list_blocks pb self request =
     (let head = map_of (query (url request)) ''head'';
          ids = get_filter_ids request
      in case query_validator (SerializeToString pb) self CLIENT_BLOCK_LIST_REQUEST
                (ClientBlockListResponse pb) (Message (ClientBlockListRequest head ids))
                None of
           (Inl e, self) \<Rightarrow> (Inl e, self)
         | (Inr response, self) \<Rightarrow>
             (case map_raise (expand_block (header_classes pb)) (blocks_entry response) of
                Inl e \<Rightarrow> (Inl e, self)
              | Inr blocks \<Rightarrow>
                  (Inr (wrap_response (Some (JArr (map block_json blocks)))
                          (Some (get_metadata request response)) 200), self)))"

text \<open>\<^verbatim>\<open>fetch_block\<close>\<close>

definition fetch_block ::
  "('m, 'h) read_pb2 \<Rightarrow> route_handler \<Rightarrow> request \<Rightarrow> (exn + web_response) \<times> route_handler" where
  "fetch_block pb self request =
     (let error_traps = [MissingBlock_trap pb, InvalidBlockId_trap pb];
          block_id = (case map_of (match_info request) ''block_id'' of None \<Rightarrow> [] | Some i \<Rightarrow> i)
      in case query_validator (SerializeToString pb) self CLIENT_BLOCK_GET_REQUEST
                (ClientBlockGetResponse pb) (Message (ClientBlockGetRequest block_id))
                (Some error_traps) of
           (Inl e, self) \<Rightarrow> (Inl e, self)
         | (Inr response, self) \<Rightarrow>
             (case block_entry response of
                None \<Rightarrow> (Inl KeyError, self)
              | Some b \<Rightarrow>
                  (case expand_block (header_classes pb) b of
                     Inl e \<Rightarrow> (Inl e, self)
                   | Inr b \<Rightarrow>
                       (Inr (wrap_response (Some (block_json b))
                               (Some (get_metadata request response)) 200), self))))"

text \<open>\<^verbatim>\<open>list_batches\<close>\<close>

definition list_batches ::
  "('m, 'h) read_pb2 \<Rightarrow> route_handler \<Rightarrow> request \<Rightarrow> (exn + web_response) \<times> route_handler" where
  "list_batches pb self request =
     (let head = map_of (query (url request)) ''head'';
          ids = get_filter_ids request
      in case query_validator (SerializeToString pb) self CLIENT_BATCH_LIST_REQUEST
                (ClientBatchListResponse pb) (Message (ClientBatchListRequest head ids))
                None of
           (Inl e, self) \<Rightarrow> (Inl e, self)
         | (Inr response, self) \<Rightarrow>
             (case map_raise (expand_batch (header_classes pb)) (batches_entry response) of
                Inl e \<Rightarrow> (Inl e, self)
              | Inr batches' \<Rightarrow>
                  (Inr (wrap_response (Some (JArr (map batch_json batches')))
                          (Some (get_metadata request response)) 200), self)))"

text \<open>\<^verbatim>\<open>fetch_batch\<close>\<close>

definition fetch_batch ::
  "('m, 'h) read_pb2 \<Rightarrow> route_handler \<Rightarrow> request \<Rightarrow> (exn + web_response) \<times> route_handler" where
  "fetch_batch pb self request =
     (let error_traps = [MissingBatch_trap pb, InvalidBatchId_trap pb];
          batch_id = (case map_of (match_info request) ''batch_id'' of None \<Rightarrow> [] | Some i \<Rightarrow> i)
      in case query_validator (SerializeToString pb) self CLIENT_BATCH_GET_REQUEST
                (ClientBatchGetResponse pb) (Message (ClientBatchGetRequest batch_id))
                (Some error_traps) of
           (Inl e, self) \<Rightarrow> (Inl e, self)
         | (Inr response, self) \<Rightarrow>
             (case batch_entry response of
                None \<Rightarrow> (Inl KeyError, self)
              | Some b \<Rightarrow>
                  (case expand_batch (header_classes pb) b of
                     Inl e \<Rightarrow> (Inl e, self)
                   | Inr b \<Rightarrow>
                       (Inr (wrap_response (Some (batch_json b))
                               (Some (get_metadata request response)) 200), self))))"

subsection \<open>Records that decode\<close>

text \<open>
  A header that \<^verbatim>\<open>_parse_header\<close> can decode for the given class: base64 text whose
  bytes parse. A record is valid when its header and the headers of its children are.
\<close>

definition decodable :: "'h header_lib \<Rightarrow> header_proto \<Rightarrow> header_value \<Rightarrow> bool" where
  "decodable lib header_proto hv =
     (case hv of
        Decoded _ \<Rightarrow> False
      | Encoded s \<Rightarrow>
          (case b64decode lib s of
             None \<Rightarrow> False
           | Some header_bytes \<Rightarrow> Header_ParseFromString lib header_proto header_bytes \<noteq> None))"

definition valid_transaction :: "'h header_lib \<Rightarrow> transaction \<Rightarrow> bool" where
  "valid_transaction lib t = decodable lib TransactionHeader (header t)"

definition valid_batch :: "'h header_lib \<Rightarrow> batch_record \<Rightarrow> bool" where
  "valid_batch lib b =
     (decodable lib BatchHeader (header b)
      \<and> (case children b of None \<Rightarrow> True | Some ts \<Rightarrow> list_all (valid_transaction lib) ts))"

definition valid_block :: "'h header_lib \<Rightarrow> block \<Rightarrow> bool" where
  "valid_block lib blk =
     (decodable lib BlockHeader (header blk)
      \<and> (case children blk of None \<Rightarrow> True | Some bs \<Rightarrow> list_all (valid_batch lib) bs))"

text \<open>
  A record in which no header is base64 text any more, at any depth.
\<close>

definition is_decoded :: "header_value \<Rightarrow> bool" where
  "is_decoded hv = (case hv of Decoded _ \<Rightarrow> True | Encoded _ \<Rightarrow> False)"

definition expanded_transaction :: "transaction \<Rightarrow> bool" where
  "expanded_transaction t = is_decoded (header t)"

definition expanded_batch :: "batch_record \<Rightarrow> bool" where
  "expanded_batch b =
     (is_decoded (header b)
      \<and> (case children b of None \<Rightarrow> True | Some ts \<Rightarrow> list_all expanded_transaction ts))"

definition expanded_block :: "block \<Rightarrow> bool" where
  "expanded_block blk =
     (is_decoded (header blk)
      \<and> (case children blk of None \<Rightarrow> True | Some bs \<Rightarrow> list_all expanded_batch bs))"

subsection \<open>Envelopes\<close>

text \<open>
  The shape of a response that \<^verbatim>\<open>_wrap_response\<close> has built: every object of the
  body has its keys in ascending order, and the body has the key \<open>data\<close>, and the key
  \<open>link\<close>, exactly when the flags say so. An error response is no envelope.
\<close>

definition is_envelope :: "bool \<Rightarrow> bool \<Rightarrow> web_response \<Rightarrow> bool" where
  "is_envelope has_data has_link resp =
     (case resp of
        ErrorResponse e \<Rightarrow> False
      | Response st ct b \<Rightarrow>
          keys_sorted b
          \<and> (''data'' \<in> set (keys b) \<longleftrightarrow> has_data)
          \<and> (''link'' \<in> set (keys b) \<longleftrightarrow> has_link))"

section \<open>Example requests\<close>

text \<open>
  A request to \<open>http://localhost:8080\<close> with the given method, path, query items,
  headers and body; its URL text is put together from the path and the query.
\<close>

definition http_request ::
  "string \<Rightarrow> string \<Rightarrow> (string \<times> string) list \<Rightarrow> (string \<times> string) list
     \<Rightarrow> bytes \<Rightarrow> json option \<Rightarrow> request" where
  "http_request m p q hs b j =
     \<lparr>request_method = m, scheme = ''http'', host = ''localhost:8080'', path = p,
      url = \<lparr>url_str = ''http://localhost:8080'' @ p
                 @ (if q = [] then [] else ''?'' @ join ''&'' (map (\<lambda>(k, v). k @ ''='' @ v) q)),
             query = q\<rparr>,
      headers = hs, match_info = [], read = b, json_body = j\<rparr>"

text \<open>
  A handler with a timeout of 300 seconds whose validator answers every message at
  once, and one whose validator never answers in time.
\<close>

definition example_handler :: route_handler where
  "example_handler =
     \<lparr>stream = \<lparr>answer = (\<lambda>t c w. Some (FutureResult c)), sent = []\<rparr>, self_timeout = 300\<rparr>"

text \<open>
  A reply class whose parser reads every reply as the message with the given status
  code and batch statuses. Like the reply classes of the two status handlers it
  defines \<open>INTERNAL_ERROR\<close> (as 2) and has neither \<open>NOT_READY\<close> nor a head; for the
  sake of the example it defines \<open>NO_ROOT\<close> as 4.
\<close>

definition example_reply_class ::
  "nat \<Rightarrow> (string \<times> string) list \<Rightarrow> (nat \<times> (string \<times> string) list, statuses_reply) proto" where
  "example_reply_class st m =
     \<lparr>ParseFromString = (\<lambda>b. Some (st, m)), status = fst,
      INTERNAL_ERROR = Some 2, NOT_READY = None, NO_ROOT = Some 4,
      MessageToDict = (\<lambda>p. \<lparr>head_id = None, batch_statuses = snd p\<rparr>)\<rparr>"

text \<open>
  What \<^verbatim>\<open>_set_wait\<close> needs, for the texts and the timeout of the examples:
  \<^verbatim>\<open>int('15')\<close> is 15 and \<^verbatim>\<open>int('99999999999999999999')\<close> is that number, while
  \<^verbatim>\<open>int('true')\<close> and \<^verbatim>\<open>int('FALSE')\<close> raise; \<^verbatim>\<open>int(300 * 0.95)\<close> is 285; and
  the field \<open>timeout\<close> is an unsigned integer of 32 bits.
\<close>

definition example_wait_lib :: wait_lib where
  "example_wait_lib =
     \<lparr>py_int = map_of [(''15'', 15), (''99999999999999999999'', 99999999999999999999)],
      scaled_timeout = (\<lambda>t. if t = 300 then 285 else 0),
      timeout_accepts = (\<lambda>n. 0 \<le> n \<and> n < 2 ^ 32)\<rparr>"

text \<open>
  The library around it: a batch list is written as the signatures of its batches
  with semicolons between them, the queries as their ids with commas between them.
\<close>

definition example_pb ::
  "nat \<Rightarrow> (string \<times> string) list
     \<Rightarrow> (nat \<times> (string \<times> string) list, nat \<times> (string \<times> string) list) client_pb2" where
  "example_pb st m =
     \<lparr>BatchList_ParseFromString =
        (\<lambda>b. Some (map (\<lambda>s. \<lparr>header_signature = s\<rparr>) (split CHR '';'' b))),
      ClientBatchSubmitRequest_SerializeToString =
        (\<lambda>q. join '','' (map header_signature (batches q))),
      ClientBatchSubmitResponse = example_reply_class st m,
      ClientBatchStatusRequest_SerializeToString = (\<lambda>q. join '','' (batch_ids q)),
      ClientBatchStatusResponse = example_reply_class st m,
      InvalidBatch_trap = \<lparr>trap_error = InvalidBatch, trigger = 3\<rparr>,
      StatusesNotReturned_trap = \<lparr>trap_error = StatusesNotReturned, trigger = 5\<rparr>,
      waiting = example_wait_lib\<rparr>"

text \<open>
  A header library for examples: base64 text is the bytes between a pair of angle
  brackets, every header parses to its own bytes, and the dictionary of a header has
  the class and the bytes.
\<close>

definition example_header_lib :: "(header_proto \<times> bytes) header_lib" where
  "example_header_lib =
     \<lparr>b64decode = (\<lambda>s. case s of
                       [] \<Rightarrow> None
                     | c # cs \<Rightarrow> if c = CHR ''<'' \<and> cs \<noteq> [] \<and> last cs = CHR ''>''
                                then Some (butlast cs) else None),
      Header_ParseFromString = (\<lambda>p b. Some (p, b)),
      Header_MessageToDict = (\<lambda>(p, b).
        [(''kind'', JStr (case p of BlockHeader \<Rightarrow> ''block'' | BatchHeader \<Rightarrow> ''batch''
                          | TransactionHeader \<Rightarrow> ''transaction'')),
         (''bytes'', JStr b)])\<rparr>"

text \<open>
  The library of the reading handlers for examples: every reply parses to the message
  with the given status, head and blocks; the replies of the other classes are empty.
\<close>

definition example_read_pb ::
  "nat \<Rightarrow> string option \<Rightarrow> block list
     \<Rightarrow> (nat \<times> string option \<times> block list, header_proto \<times> bytes) read_pb2" where
  "example_read_pb st h blks =
     \<lparr>SerializeToString = (\<lambda>q. ''query''),
      ClientStateListResponse =
        \<lparr>ParseFromString = (\<lambda>b. Some (st, h, blks)), status = fst,
         INTERNAL_ERROR = Some 2, NOT_READY = Some 3, NO_ROOT = Some 4,
         MessageToDict = (\<lambda>(s, h, bs). \<lparr>head_id = h, leaves_entry = Some []\<rparr>)\<rparr>,
      ClientStateGetResponse =
        \<lparr>ParseFromString = (\<lambda>b. Some (st, h, blks)), status = fst,
         INTERNAL_ERROR = Some 2, NOT_READY = Some 3, NO_ROOT = Some 4,
         MessageToDict = (\<lambda>(s, h, bs). \<lparr>head_id = h, value_entry = []\<rparr>)\<rparr>,
      ClientBlockListResponse =
        \<lparr>ParseFromString = (\<lambda>b. Some (st, h, blks)), status = fst,
         INTERNAL_ERROR = Some 2, NOT_READY = Some 3, NO_ROOT = Some 4,
         MessageToDict = (\<lambda>(s, h, bs). \<lparr>head_id = h, blocks_entry = bs\<rparr>)\<rparr>,
      ClientBlockGetResponse =
        \<lparr>ParseFromString = (\<lambda>b. Some (st, h, blks)), status = fst,
         INTERNAL_ERROR = Some 2, NOT_READY = None, NO_ROOT = None,
         MessageToDict = (\<lambda>(s, h, bs). \<lparr>head_id = None,
                            block_entry = (case bs of [] \<Rightarrow> None | b # _ \<Rightarrow> Some b)\<rparr>)\<rparr>,
      ClientBatchListResponse =
        \<lparr>ParseFromString = (\<lambda>b. Some (st, h, blks)), status = fst,
         INTERNAL_ERROR = Some 2, NOT_READY = Some 3, NO_ROOT = Some 4,
         MessageToDict = (\<lambda>(s, h, bs). \<lparr>head_id = h, batches_entry = []\<rparr>)\<rparr>,
      ClientBatchGetResponse =
        \<lparr>ParseFromString = (\<lambda>b. Some (st, h, blks)), status = fst,
         INTERNAL_ERROR = Some 2, NOT_READY = None, NO_ROOT = None,
         MessageToDict = (\<lambda>(s, h, bs). \<lparr>head_id = None, batch_entry = None\<rparr>)\<rparr>,
      MissingLeaf_trap = \<lparr>trap_error = MissingLeaf, trigger = 5\<rparr>,
      BadAddress_trap = \<lparr>trap_error = BadAddress, trigger = 6\<rparr>,
      MissingBlock_trap = \<lparr>trap_error = MissingBlock, trigger = 5\<rparr>,
      InvalidBlockId_trap = \<lparr>trap_error = InvalidBlockId, trigger = 6\<rparr>,
      MissingBatch_trap = \<lparr>trap_error = MissingBatch, trigger = 5\<rparr>,
      InvalidBatchId_trap = \<lparr>trap_error = InvalidBatchId, trigger = 6\<rparr>,
      header_classes = example_header_lib\<rparr>"


section \<open>Properties\<close>

subsection \<open>String helpers\<close>

lemma join_amp_concat:
  "xs \<noteq> [] \<Longrightarrow> sep @ join sep xs = concat (map (\<lambda>x. sep @ x) xs)"
  by (induction sep xs rule: join.induct) simp_all

text \<open>
  \<^verbatim>\<open>str.replace\<close> never matches across a character that the old text does not
  contain, so it works on the two sides of such a character separately; and it leaves
  a text without any occurrence of the old text as it is.
\<close>

lemma take_sep:
  assumes "c \<notin> set old" "take (length old) (u @ c # v) = old"
  shows "length old \<le> length u"
proof (rule ccontr)
  assume "\<not> length old \<le> length u"
  then have "length u < length old" by simp
  then have "take (length old) (u @ c # v) ! length u = c"
    by (simp add: nth_append)
  moreover have "length u < length (take (length old) (u @ c # v))"
    using \<open>length u < length old\<close> by simp
  ultimately have "c \<in> set (take (length old) (u @ c # v))"
    by (metis nth_mem)
  with assms show False by simp
qed

lemma replace_from_hit:
  assumes "s \<noteq> []" "old \<noteq> []" "take (length old) s = old"
  shows "replace_from old new s = new @ replace_from old new (drop (length old) s)"
  using assms by (cases s) simp_all

lemma replace_from_miss:
  assumes "\<not> (old \<noteq> [] \<and> take (length old) (c # cs) = old)"
  shows "replace_from old new (c # cs) = c # replace_from old new cs"
  using assms by auto

lemma replace_from_sep:
  assumes "c \<notin> set old"
  shows "replace_from old new (u @ c # v) = replace_from old new u @ c # replace_from old new v"
  using assms
proof (induction old new u rule: replace_from.induct)
  case (1 old new)
  have "\<not> (old \<noteq> [] \<and> take (length old) (c # v) = old)"
  proof
    assume a: "old \<noteq> [] \<and> take (length old) (c # v) = old"
    then have "length old \<le> length ([]::string)"
      using take_sep [of c old "[]" v] 1 by simp
    with a show False by simp
  qed
  then have "replace_from old new (c # v) = c # replace_from old new v"
    by (rule replace_from_miss)
  then show ?case by (simp del: replace_from.simps(2))
next
  case (2 old new x xs)
  define w where "w = x # xs"
  have w_ne: "w \<noteq> []" by (simp add: w_def)
  show ?case
  proof (cases "old \<noteq> [] \<and> take (length old) (x # xs) = old")
    case True
    then have ne: "old \<noteq> []" and eq: "take (length old) w = old"
      by (simp_all add: w_def)
    have "length (take (length old) w) \<le> length w" by simp
    then have len: "length old \<le> length w" by (simp only: eq)
    have t: "take (length old) (w @ c # v) = old"
      using len eq by simp
    have d: "drop (length old) (w @ c # v) = drop (length old) w @ c # v"
      using len by simp
    have wcv: "w @ c # v \<noteq> []" by simp
    have ih: "replace_from old new (drop (length old) w @ c # v)
                = replace_from old new (drop (length old) w) @ c # replace_from old new v"
      unfolding w_def by (rule 2(1) [OF True 2(3)])
    have "replace_from old new (w @ c # v)
            = new @ replace_from old new (drop (length old) (w @ c # v))"
      using wcv ne t by (rule replace_from_hit)
    also have "\<dots> = new @ replace_from old new (drop (length old) w) @ c # replace_from old new v"
      by (simp only: d ih)
    also have "\<dots> = (new @ replace_from old new (drop (length old) w)) @ c # replace_from old new v"
      by (simp only: append_assoc)
    also have "new @ replace_from old new (drop (length old) w) = replace_from old new w"
      using replace_from_hit [OF w_ne ne eq, of new] by (rule sym)
    finally show ?thesis by (simp only: w_def)
  next
    case False
    have nt: "\<not> (old \<noteq> [] \<and> take (length old) (x # (xs @ c # v)) = old)"
    proof
      assume a: "old \<noteq> [] \<and> take (length old) (x # (xs @ c # v)) = old"
      then have a': "take (length old) (w @ c # v) = old" by (simp add: w_def)
      have len: "length old \<le> length w"
        by (rule take_sep [OF 2(3) a'])
      then have "take (length old) w = old"
        using a' by simp
      with a False show False by (simp add: w_def)
    qed
    have "replace_from old new ((x # xs) @ c # v) = replace_from old new (x # (xs @ c # v))"
      by (simp only: append_Cons)
    also have "\<dots> = x # replace_from old new (xs @ c # v)"
      using nt by (rule replace_from_miss)
    also have "\<dots> = x # (replace_from old new xs @ c # replace_from old new v)"
      by (simp only: 2(2) [OF False 2(3)])
    also have "\<dots> = (x # replace_from old new xs) @ c # replace_from old new v"
      by (simp only: append_Cons)
    also have "x # replace_from old new xs = replace_from old new (x # xs)"
      using replace_from_miss [OF False, of new] by (rule sym)
    finally show ?thesis .
  qed
qed

lemma replace_sep:
  assumes "c \<notin> set old" "old \<noteq> []"
  shows "replace (u @ c # v) old new = replace u old new @ c # replace v old new"
  using assms by (simp add: replace_def replace_from_sep)

lemma replace_absent:
  assumes "\<forall>u v. s \<noteq> u @ old @ v"
  shows "replace s old new = s"
proof -
  have ne: "old \<noteq> []"
    using assms by (metis append_Nil)
  have "replace_from old new s = s" using assms
  proof (induction old new s rule: replace_from.induct)
    case (1 old new)
    then show ?case by simp
  next
    case (2 old new c cs)
    have nt: "\<not> (old \<noteq> [] \<and> take (length old) (c # cs) = old)"
    proof
      assume "old \<noteq> [] \<and> take (length old) (c # cs) = old"
      then have "c # cs = [] @ old @ drop (length old) (c # cs)"
        by (metis append_Nil append_take_drop_id)
      with 2(3) show False by blast
    qed
    have "\<forall>u v. cs \<noteq> u @ old @ v"
    proof (intro allI notI)
      fix u v assume "cs = u @ old @ v"
      then have "c # cs = (c # u) @ old @ v" by simp
      with 2(3) show False by blast
    qed
    with 2(2) [OF nt] nt show ?case by auto
  qed
  with ne show ?thesis by (simp add: replace_def)
qed

lemma batches_link:
  "replace (sch @ ''://'' @ hst @ ''/batch_status?id='' @ ids) ''batch_status'' ''batches''
   = replace sch ''batch_status'' ''batches'' @ ''://''
     @ replace hst ''batch_status'' ''batches'' @ ''/batches?id=''
     @ replace ids ''batch_status'' ''batches''"
proof -
  let ?r = "\<lambda>s. replace s ''batch_status'' ''batches''"
  have "?r (sch @ ''://'' @ hst @ ''/batch_status?id='' @ ids)
          = ?r sch @ CHR '':'' # ?r (''//'' @ hst @ ''/batch_status?id='' @ ids)"
    using replace_sep [of "CHR '':''" "''batch_status''" sch] by simp
  also have "?r (''//'' @ hst @ ''/batch_status?id='' @ ids)
          = ?r [] @ CHR ''/'' # ?r (''/'' @ hst @ ''/batch_status?id='' @ ids)"
    using replace_sep [of "CHR ''/''" "''batch_status''" "[]"] by simp
  also have "?r (''/'' @ hst @ ''/batch_status?id='' @ ids)
          = ?r [] @ CHR ''/'' # ?r (hst @ ''/batch_status?id='' @ ids)"
    using replace_sep [of "CHR ''/''" "''batch_status''" "[]"] by simp
  also have "?r (hst @ ''/batch_status?id='' @ ids)
          = ?r hst @ CHR ''/'' # ?r (''batch_status?id='' @ ids)"
    using replace_sep [of "CHR ''/''" "''batch_status''" hst] by simp
  also have "?r (''batch_status?id='' @ ids)
          = ?r ''batch_status'' @ CHR ''?'' # ?r (''id='' @ ids)"
    using replace_sep [of "CHR ''?''" "''batch_status''" "''batch_status''"] by simp
  also have "?r (''id='' @ ids) = ?r ''id'' @ CHR ''='' # ?r ids"
    using replace_sep [of "CHR ''=''" "''batch_status''" "''id''"] by simp
  finally have chain: "?r (sch @ ''://'' @ hst @ ''/batch_status?id='' @ ids)
      = ?r sch @ CHR '':'' # ?r [] @ CHR ''/'' # ?r [] @ CHR ''/'' # ?r hst @ CHR ''/''
          # ?r ''batch_status'' @ CHR ''?'' # ?r ''id'' @ CHR ''='' # ?r ids" .
  have e1: "?r [] = []" by code_simp
  have e2: "?r ''batch_status'' = ''batches''" by code_simp
  have e3: "?r ''id'' = ''id''" by code_simp
  have "?r sch @ CHR '':'' # ?r [] @ CHR ''/'' # ?r [] @ CHR ''/'' # ?r hst @ CHR ''/''
          # ?r ''batch_status'' @ CHR ''?'' # ?r ''id'' @ CHR ''='' # ?r ids
        = ?r sch @ ''://'' @ ?r hst @ ''/batches?id='' @ ?r ids"
    by (simp only: e1 e2 e3 append_Cons append_Nil append_assoc)
  with chain show ?thesis by (rule trans)
qed

lemma lower_false: "lower ''false'' = ''false''"
  by code_simp

subsection \<open>The wait parameter\<close>




subsection \<open>Metadata\<close>

text \<open>
  Claim C3. When the decoded reply has no head id (no \<open>head_id\<close> key, or the empty
  text of an unset field), \<^verbatim>\<open>_get_metadata\<close> returns the dictionary with the single
  key \<open>link\<close>, holding the request URL as it came. Otherwise it returns \<open>head\<close> and
  \<open>link\<close>, the link being scheme, host and path, then \<open>?head=\<close> and the head id, then
  \<open>&key=value\<close> for every query item whose key is not \<open>head\<close>, in the order of the
  request.
\<close>

theorem get_metadata_spec:
  "get_metadata rq rs =
     (case head_id rs of
        None \<Rightarrow> [(''link'', JStr (url_str (url rq)))]
      | Some h \<Rightarrow>
          if h = [] then [(''link'', JStr (url_str (url rq)))]
          else [(''head'', JStr h),
                (''link'', JStr (scheme rq @ ''://'' @ host rq @ path rq @ ''?head='' @ h
                   @ concat (map (\<lambda>(k, v). ''&'' @ k @ ''='' @ v)
                       (filter (\<lambda>(k, v). k \<noteq> ''head'') (query (url rq))))))])"
proof (cases "head_id rs")
  case None
  then show ?thesis by (simp add: get_metadata_def)
next
  case (Some h)
  let ?kept = "filter (\<lambda>(k, v). k \<noteq> ''head'') (query (url rq))"
  let ?headless = "map (\<lambda>(k, v). k @ ''='' @ v) ?kept"
  have tail: "(if length ?headless > 0 then ''&'' @ join ''&'' ?headless else [])
                = concat (map (\<lambda>(k, v). ''&'' @ k @ ''='' @ v) ?kept)"
  proof (cases "?kept = []")
    case True
    then show ?thesis by simp
  next
    case False
    then have "?headless \<noteq> []" by simp
    then have "''&'' @ join ''&'' ?headless = concat (map (\<lambda>x. ''&'' @ x) ?headless)"
      by (rule join_amp_concat)
    also have "\<dots> = concat (map (\<lambda>(k, v). ''&'' @ k @ ''='' @ v) ?kept)"
      by (simp add: comp_def case_prod_unfold)
    finally show ?thesis using False by simp
  qed
  show ?thesis
  proof (cases "h = []")
    case True
    with Some show ?thesis by (simp add: get_metadata_def)
  next
    case False
    have "get_metadata rq rs =
            [(''head'', JStr h),
             (''link'', JStr (scheme rq @ ''://'' @ host rq @ path rq @ ''?head='' @ h
                @ (if length ?headless > 0 then ''&'' @ join ''&'' ?headless else [])))]"
      using Some False by (simp add: get_metadata_def Let_def)
    with tail Some False show ?thesis by simp
  qed
qed

text \<open>
  Claim C9. The request carries the query items \<open>address=000000\<close> and \<open>head=abc\<close>, in
  either order, and the reply reports \<open>abc\<close>, the head that was asked for, as the head
  it used. Then the metadata holds \<open>head\<close> \<open>abc\<close> and the link is scheme, host and path
  followed by \<open>?head=abc&address=000000\<close>.
\<close>

theorem get_metadata_round_trip:
  assumes "query (url rq) = [(''address'', ''000000''), (''head'', ''abc'')]
           \<or> query (url rq) = [(''head'', ''abc''), (''address'', ''000000'')]"
    and "head_id rs = Some ''abc''"
  shows "get_metadata rq rs =
           [(''head'', JStr ''abc''),
            (''link'', JStr (scheme rq @ ''://'' @ host rq @ path rq
                              @ ''?head=abc&address=000000''))]"
  using assms by (auto simp: get_metadata_def Let_def)

theorem get_metadata_round_trip_witness:
  "get_metadata
     (http_request ''GET'' ''/state'' [(''address'', ''000000''), (''head'', ''abc'')] [] [] None)
     \<lparr>head_id = Some ''abc''\<rparr>
   = [(''head'', JStr ''abc''),
      (''link'', JStr ''http://localhost:8080/state?head=abc&address=000000'')]"
proof -
  let ?rq = "http_request ''GET'' ''/state'' [(''address'', ''000000''), (''head'', ''abc'')] [] [] None"
  have q: "query (url ?rq) = [(''address'', ''000000''), (''head'', ''abc'')]
           \<or> query (url ?rq) = [(''head'', ''abc''), (''address'', ''000000'')]"
    by (simp add: http_request_def)
  have h: "head_id \<lparr>head_id = Some ''abc''\<rparr> = Some ''abc''" by simp
  show ?thesis
    using get_metadata_round_trip [OF q h] by (simp add: http_request_def)
qed

subsection \<open>Talking to the validator\<close>

text \<open>
  Claim C5. \<^verbatim>\<open>_try_validator_request\<close> sends the content once: the stream's record
  of sent messages grows by this one message, whatever the answer. When waiting for
  the future times out, and when the future resolves to the error of a lost
  connection, whose content raises, the request raises \<open>ValidatorUnavailable\<close>. In the
  one remaining case it returns the content of the reply as it is.
\<close>

theorem try_validator_request_spec:
  "fst (try_validator_request ser self mt content) =
     (case answer (stream self) mt (case content of Message m \<Rightarrow> ser m | Bytes b \<Rightarrow> b)
             (self_timeout self) of
        None \<Rightarrow> Inl (HTTPError ValidatorUnavailable)
      | Some FutureError \<Rightarrow> Inl (HTTPError ValidatorUnavailable)
      | Some (FutureResult c) \<Rightarrow> Inr c)
   \<and> sent (stream (snd (try_validator_request ser self mt content))) =
       sent (stream self) @ [(mt, case content of Message m \<Rightarrow> ser m | Bytes b \<Rightarrow> b)]
   \<and> answer (stream (snd (try_validator_request ser self mt content))) = answer (stream self)
   \<and> self_timeout (snd (try_validator_request ser self mt content)) = self_timeout self"
  by (simp add: try_validator_request_def send_def Let_def
           split: content.splits option.splits stream_reply.splits)

subsection \<open>The trap chain\<close>

lemma check_all_find:
  "check_all ts s =
     map_option (\<lambda>t. HTTPError (TrapError (trap_error t))) (find (\<lambda>t. trigger t = s) ts)"
  by (induction ts) (simp_all add: check_def)

text \<open>
  Claim C2. For a reply that parses, \<^verbatim>\<open>_try_response_parse\<close> goes through the
  caller's traps in the order given and then through the baseline traps \<open>Unknown\<close>,
  \<open>NotReady\<close> and \<open>MissingHead\<close>, each of which is in the chain only when the reply
  class defines its status code. The first trap of this chain whose code is the
  reply's status decides: its error is raised, whatever the traps after it are. When
  no trap of the chain has the status, the result is the reply as a dictionary.
\<close>

theorem try_response_parse_spec:
  assumes "ParseFromString proto response = Some parsed"
  shows "try_response_parse proto response (Some traps) =
           (case find (\<lambda>t. trigger t = status proto parsed)
                   (traps
                    @ (case INTERNAL_ERROR proto of
                         Some c \<Rightarrow> [\<lparr>trap_error = Unknown, trigger = c\<rparr>] | None \<Rightarrow> [])
                    @ (case NOT_READY proto of
                         Some c \<Rightarrow> [\<lparr>trap_error = NotReady, trigger = c\<rparr>] | None \<Rightarrow> [])
                    @ (case NO_ROOT proto of
                         Some c \<Rightarrow> [\<lparr>trap_error = MissingHead, trigger = c\<rparr>] | None \<Rightarrow> [])) of
              Some t \<Rightarrow> Inl (HTTPError (TrapError (trap_error t)))
            | None \<Rightarrow> Inr (MessageToDict proto parsed))"
proof -
  let ?chain = "traps
      @ (case INTERNAL_ERROR proto of
           Some c \<Rightarrow> [\<lparr>trap_error = Unknown, trigger = c\<rparr>] | None \<Rightarrow> [])
      @ (case NOT_READY proto of
           Some c \<Rightarrow> [\<lparr>trap_error = NotReady, trigger = c\<rparr>] | None \<Rightarrow> [])
      @ (case NO_ROOT proto of
           Some c \<Rightarrow> [\<lparr>trap_error = MissingHead, trigger = c\<rparr>] | None \<Rightarrow> [])"
  have "try_response_parse proto response (Some traps) =
          (case check_all ?chain (status proto parsed) of
             Some e \<Rightarrow> Inl e
           | None \<Rightarrow> Inr (MessageToDict proto parsed))"
    using assms by (simp add: try_response_parse_def Let_def split: option.splits)
  then show ?thesis
    by (simp add: check_all_find split: option.splits)
qed

theorem try_response_parse_spec_witness:
  "try_response_parse (example_reply_class 4 []) ''reply''
     (Some [\<lparr>trap_error = MissingBlock, trigger = 4\<rparr>])
   = Inl (HTTPError (TrapError MissingBlock))"
proof -
  have h: "ParseFromString (example_reply_class 4 []) ''reply'' = Some (4, [])"
    by (simp add: example_reply_class_def)
  show ?thesis
    using try_response_parse_spec [OF h, of "[\<lparr>trap_error = MissingBlock, trigger = 4\<rparr>]"]
    by (simp add: example_reply_class_def)
qed

subsection \<open>Expanding headers\<close>

lemma map_raise_all:
  assumes "list_all (\<lambda>x. \<exists>y. f x = Inr y \<and> P y) xs"
  shows "\<exists>ys. map_raise f xs = Inr ys \<and> list_all2 (\<lambda>x y. f x = Inr y) xs ys \<and> list_all P ys"
  using assms by (induction xs) auto

lemma parse_header_decodable:
  assumes "decodable lib p (header obj)"
  shows "\<exists>d. parse_header lib p obj = Inr (obj\<lparr>header := Decoded d\<rparr>)"
  using assms
  by (auto simp: decodable_def parse_header_def split: header_value.splits option.splits)

lemma expand_transaction_valid:
  assumes "valid_transaction lib t"
  shows "\<exists>t'. expand_transaction lib t = Inr t' \<and> expanded_transaction t'"
proof -
  from assms obtain d where "parse_header lib TransactionHeader t = Inr (t\<lparr>header := Decoded d\<rparr>)"
    using parse_header_decodable unfolding valid_transaction_def by blast
  then show ?thesis
    by (simp add: expand_transaction_def expanded_transaction_def is_decoded_def)
qed

lemma expand_batch_valid:
  assumes "valid_batch lib b"
  shows "\<exists>b'. expand_batch lib b = Inr b' \<and> expanded_batch b'
           \<and> other_fields b' = other_fields b
           \<and> rel_option (list_all2 (\<lambda>t t'. expand_transaction lib t = Inr t'))
                (children b) (children b')"
proof -
  from assms obtain d where ph: "parse_header lib BatchHeader b = Inr (b\<lparr>header := Decoded d\<rparr>)"
    using parse_header_decodable unfolding valid_batch_def by blast
  show ?thesis
  proof (cases "children b")
    case None
    with ph show ?thesis
      by (simp add: expand_batch_def expanded_batch_def is_decoded_def)
  next
    case (Some ts)
    with assms have "list_all (valid_transaction lib) ts"
      by (simp add: valid_batch_def)
    then have "list_all (\<lambda>t. \<exists>t'. expand_transaction lib t = Inr t' \<and> expanded_transaction t') ts"
      using expand_transaction_valid by (auto simp: list_all_iff)
    then obtain ts' where ts': "map_raise (expand_transaction lib) ts = Inr ts'"
        "list_all2 (\<lambda>t t'. expand_transaction lib t = Inr t') ts ts'"
        "list_all expanded_transaction ts'"
      using map_raise_all by blast
    with ph Some show ?thesis
      by (simp add: expand_batch_def expanded_batch_def is_decoded_def)
  qed
qed

text \<open>
  Claim C4. For a block whose header and whose batches' and transactions' headers are
  base64 text that decodes and parses, \<^verbatim>\<open>_expand_block\<close> returns a record, and in
  this record no header at any depth is base64 text: the block's, every batch's and
  every transaction's header is a dictionary. The other fields of the block are as
  they were. The number of batches is the same, and so is the number of transactions
  of every batch. The batches of the returned block are the results of
  \<^verbatim>\<open>_expand_batch\<close> on the batches of the block, in their order, and the transactions
  of each are the results of \<^verbatim>\<open>_expand_transaction\<close>: every child has been expanded
  when its parent is returned.
\<close>

theorem expand_block_spec:
  assumes "valid_block lib blk"
  shows "\<exists>blk'. expand_block lib blk = Inr blk' \<and> expanded_block blk'
           \<and> other_fields blk' = other_fields blk
           \<and> map_option length (children blk') = map_option length (children blk)
           \<and> rel_option
                (list_all2 (\<lambda>b b'. expand_batch lib b = Inr b'
                    \<and> map_option length (children b') = map_option length (children b)
                    \<and> rel_option (list_all2 (\<lambda>t t'. expand_transaction lib t = Inr t'))
                         (children b) (children b')))
                (children blk) (children blk')"
proof -
  from assms obtain d where ph: "parse_header lib BlockHeader blk = Inr (blk\<lparr>header := Decoded d\<rparr>)"
    using parse_header_decodable unfolding valid_block_def by blast
  show ?thesis
  proof (cases "children blk")
    case None
    with ph show ?thesis
      by (simp add: expand_block_def expanded_block_def is_decoded_def)
  next
    case (Some bs)
    let ?R = "\<lambda>t t'. expand_transaction lib t = Inr t'"
    let ?P = "\<lambda>b'. expanded_batch b'"
    have count: "map_option length y = map_option length x"
      if "rel_option (list_all2 ?R) x y" for x y
      using that by (cases x; cases y) (auto dest: list_all2_lengthD)
    from Some assms have "list_all (valid_batch lib) bs"
      by (simp add: valid_block_def)
    then have "list_all (\<lambda>b. \<exists>b'. expand_batch lib b = Inr b' \<and> expanded_batch b') bs"
      using expand_batch_valid by (fastforce simp: list_all_iff)
    then obtain bs' where bs': "map_raise (expand_batch lib) bs = Inr bs'"
        "list_all2 (\<lambda>b b'. expand_batch lib b = Inr b') bs bs'"
        "list_all expanded_batch bs'"
      using map_raise_all by blast
    have each: "expand_batch lib b = Inr b'
                  \<and> map_option length (children b') = map_option length (children b)
                  \<and> rel_option (list_all2 ?R) (children b) (children b')"
      if "b \<in> set bs" "expand_batch lib b = Inr b'" for b b'
    proof -
      from that \<open>list_all (valid_batch lib) bs\<close> have "valid_batch lib b"
        by (simp add: list_all_iff)
      from expand_batch_valid [OF this] that(2)
      have "rel_option (list_all2 ?R) (children b) (children b')" by auto
      with that(2) count show ?thesis by blast
    qed
    have rel: "list_all2 (\<lambda>b b'. expand_batch lib b = Inr b'
                  \<and> map_option length (children b') = map_option length (children b)
                  \<and> rel_option (list_all2 ?R) (children b) (children b')) bs bs'"
      using bs'(2) by (rule list.rel_mono_strong) (rule each)
    have len: "length bs' = length bs"
      using bs'(2) by (simp add: list_all2_lengthD)
    from ph Some bs' rel len show ?thesis
      by (simp add: expand_block_def expanded_block_def is_decoded_def)
  qed
qed


theorem expand_block_spec_witness:
  "expand_block example_header_lib
     \<lparr>header = Encoded ''<blk>'',
      children = Some [\<lparr>header = Encoded ''<bat>'',
                        children = Some [\<lparr>header = Encoded ''<tx1>'', children = (),
                                          other_fields = []\<rparr>,
                                         \<lparr>header = Encoded ''<tx2>'', children = (),
                                          other_fields = []\<rparr>],
                        other_fields = [(''header_signature'', JStr ''b1'')]\<rparr>],
      other_fields = [(''header_signature'', JStr ''k1'')]\<rparr>
   = Inr \<lparr>header = Decoded [(''kind'', JStr ''block''), (''bytes'', JStr ''blk'')],
          children = Some [\<lparr>header = Decoded [(''kind'', JStr ''batch''), (''bytes'', JStr ''bat'')],
                            children = Some [\<lparr>header = Decoded [(''kind'', JStr ''transaction''),
                                                                (''bytes'', JStr ''tx1'')],
                                              children = (), other_fields = []\<rparr>,
                                             \<lparr>header = Decoded [(''kind'', JStr ''transaction''),
                                                                (''bytes'', JStr ''tx2'')],
                                              children = (), other_fields = []\<rparr>],
                            other_fields = [(''header_signature'', JStr ''b1'')]\<rparr>],
          other_fields = [(''header_signature'', JStr ''k1'')]\<rparr>
   \<and> expanded_block
        \<lparr>header = Decoded [(''kind'', JStr ''block''), (''bytes'', JStr ''blk'')],
          children = Some [\<lparr>header = Decoded [(''kind'', JStr ''batch''), (''bytes'', JStr ''bat'')],
                            children = Some [\<lparr>header = Decoded [(''kind'', JStr ''transaction''),
                                                                (''bytes'', JStr ''tx1'')],
                                              children = (), other_fields = []\<rparr>,
                                             \<lparr>header = Decoded [(''kind'', JStr ''transaction''),
                                                                (''bytes'', JStr ''tx2'')],
                                              children = (), other_fields = []\<rparr>],
                            other_fields = [(''header_signature'', JStr ''b1'')]\<rparr>],
          other_fields = [(''header_signature'', JStr ''k1'')]\<rparr>"
  (is "expand_block _ ?B = Inr ?B' \<and> _")
proof -
  have v: "valid_block example_header_lib ?B"
    by (simp add: valid_block_def valid_batch_def valid_transaction_def decodable_def
          example_header_lib_def)
  have e: "expand_block example_header_lib ?B = Inr ?B'"
    by (simp add: expand_block_def expand_batch_def expand_transaction_def parse_header_def
          example_header_lib_def)
  from expand_block_spec [OF v] e show ?thesis by auto
qed

subsection \<open>The envelope\<close>

lemma keys_sorted_dumps: "keys_sorted (json_dumps j)"
proof (induction j)
  case (JArr xs)
  then show ?case by (simp add: list_all_iff)
next
  case (JObj kvs)
  have inner: "keys_sorted (json_dumps (snd kv))" if "kv \<in> set kvs" for kv
    using JObj [of kv "snd kv"] that by (cases kv) simp
  have "sorted (map fst (sort_key fst (map (map_prod id json_dumps) kvs)))"
    by (rule sorted_sort_key)
  moreover have "list_all snd (map (map_prod id keys_sorted)
                    (sort_key fst (map (map_prod id json_dumps) kvs)))"
    using inner by (auto simp: list_all_iff)
  ultimately show ?case by simp
qed simp_all

lemma keys_dumps_object: "set (keys (json_dumps (JObj kvs))) = fst ` set kvs"
  by (force simp: image_iff)

lemma get_metadata_keys:
  "map fst (get_metadata rq rs) = [''link''] \<or> map fst (get_metadata rq rs) = [''head'', ''link'']"
  by (simp add: get_metadata_def Let_def split: option.splits)

lemma wrap_response_keys:
  "set (keys (body (wrap_response data metadata st))) =
     (case data of None \<Rightarrow> {} | Some d \<Rightarrow> {''data''})
     \<union> (case metadata of None \<Rightarrow> {} | Some m \<Rightarrow> fst ` set m)"
  unfolding wrap_response_def Let_def web_response.sel keys_dumps_object
  by (auto simp: dom_update split: option.splits)

lemma wrap_response_shape:
  assumes "metadata = None \<or> metadata = Some [(''link'', JStr l)]
           \<or> metadata = Some (get_metadata rq rs)"
  shows "keys_sorted (body (wrap_response data metadata st))
         \<and> (''data'' \<in> set (keys (body (wrap_response data metadata st))) \<longleftrightarrow> data \<noteq> None)
         \<and> (''link'' \<in> set (keys (body (wrap_response data metadata st))) \<longleftrightarrow> metadata \<noteq> None)"
proof -
  have sorted: "keys_sorted (body (wrap_response data metadata st))"
    by (simp add: wrap_response_def Let_def keys_sorted_dumps del: json_dumps.simps keys_sorted.simps)
  have gk: "fst ` set (get_metadata rq rs) = {''link''}
            \<or> fst ` set (get_metadata rq rs) = {''head'', ''link''}"
  proof -
    have "fst ` set (get_metadata rq rs) = set (map fst (get_metadata rq rs))" by simp
    with get_metadata_keys [of rq rs] show ?thesis by auto
  qed
  have md: "(case metadata of None \<Rightarrow> {} | Some m \<Rightarrow> fst ` set m) = {}
            \<and> metadata = None
          \<or> (case metadata of None \<Rightarrow> {} | Some m \<Rightarrow> fst ` set m) = {''link''}
            \<and> metadata \<noteq> None
          \<or> (case metadata of None \<Rightarrow> {} | Some m \<Rightarrow> fst ` set m) = {''head'', ''link''}
            \<and> metadata \<noteq> None"
    using assms gk by (elim disjE) simp_all
  let ?M = "case metadata of None \<Rightarrow> {} | Some m \<Rightarrow> fst ` set m"
  have K: "set (keys (body (wrap_response data metadata st))) =
             (case data of None \<Rightarrow> {} | Some d \<Rightarrow> {''data''}) \<union> ?M"
    by (rule wrap_response_keys)
  from md consider
      (none) "?M = {}" "metadata = None"
    | (link) "?M = {''link''}" "metadata \<noteq> None"
    | (head) "?M = {''head'', ''link''}" "metadata \<noteq> None"
    by blast
  then show ?thesis
  proof cases
    case none
    with sorted K show ?thesis by (cases data) simp_all
  next
    case link
    with sorted K show ?thesis by (cases data) simp_all
  next
    case head
    with sorted K show ?thesis by (cases data) simp_all
  qed
qed

lemma is_envelope_wrap:
  assumes "metadata = None \<or> metadata = Some [(''link'', JStr l)]
           \<or> metadata = Some (get_metadata rq rs)"
  shows "is_envelope (data \<noteq> None) (metadata \<noteq> None) (wrap_response data metadata st)"
proof -
  obtain b where b: "wrap_response data metadata st = Response st ''application/json'' b"
    by (simp add: wrap_response_def Let_def)
  with wrap_response_shape [OF assms, of data st] show ?thesis
    by (simp add: is_envelope_def)
qed

lemma is_envelope_get_metadata:
  "is_envelope (data \<noteq> None) True (wrap_response data (Some (get_metadata rq rs)) st)"
  using is_envelope_wrap [of "Some (get_metadata rq rs)" undefined rq rs data st] by simp

lemma is_envelope_link:
  "is_envelope (data \<noteq> None) True (wrap_response data (Some [(''link'', JStr l)]) st)"
  using is_envelope_wrap [of "Some [(''link'', JStr l)]" l undefined undefined data st] by simp

lemma is_envelope_none:
  "is_envelope (data \<noteq> None) False (wrap_response data None st)"
  using is_envelope_wrap [of None undefined undefined undefined data st] by simp

lemma response_status_wrap: "response_status (wrap_response data metadata st) = st"
  by (simp add: wrap_response_def Let_def)

lemma submit_batches_envelope:
  assumes "fst (submit_batches pb self rq) = Inr resp"
  shows "(\<exists>e. resp = ErrorResponse e) \<or> is_envelope (response_status resp = 200) True resp"
  using assms is_envelope_link [of None _ 202] is_envelope_link [of None _ 201]
    is_envelope_link [of "Some _" _ 200]
  by (auto simp: submit_batches_def Let_def response_status_wrap
           split: option.splits prod.splits sum.splits if_splits)

lemma list_statuses_envelope:
  assumes "fst (list_statuses pb self rq) = Inr resp"
  shows "(\<exists>e. resp = ErrorResponse e) \<or> is_envelope True (request_method rq \<noteq> ''POST'') resp"
proof (cases "status_ids rq")
  case (Raise e)
  with assms show ?thesis by (simp add: list_statuses_def)
next
  case (Return r)
  then have "\<exists>e. r = ErrorResponse e"
    by (auto simp: status_ids_def split: if_splits option.splits json.splits list.splits)
  with Return assms show ?thesis by (auto simp: list_statuses_def)
next
  case (Continue ids)
  with assms is_envelope_get_metadata [of "Some _" rq _ 200] is_envelope_none [of "Some _" 200]
  show ?thesis
    by (auto simp: list_statuses_def Let_def split: prod.splits sum.splits if_splits)
qed

lemma list_state_envelope:
  assumes "fst (list_state rp self rq) = Inr resp"
  shows "is_envelope True True resp"
  using assms is_envelope_get_metadata [of "Some _" rq _ 200]
  by (auto simp: list_state_def Let_def split: prod.splits sum.splits)

lemma fetch_state_envelope:
  assumes "fst (fetch_state rp self rq) = Inr resp"
  shows "is_envelope True True resp"
  using assms is_envelope_get_metadata [of "Some _" rq _ 200]
  by (auto simp: fetch_state_def Let_def split: prod.splits sum.splits)

lemma list_blocks_envelope:
  assumes "fst (list_blocks rp self rq) = Inr resp"
  shows "is_envelope True True resp"
  using assms is_envelope_get_metadata [of "Some _" rq _ 200]
  by (auto simp: list_blocks_def Let_def split: prod.splits sum.splits)

lemma fetch_block_envelope:
  assumes "fst (fetch_block rp self rq) = Inr resp"
  shows "is_envelope True True resp"
  using assms is_envelope_get_metadata [of "Some _" rq _ 200]
  by (auto simp: fetch_block_def Let_def split: prod.splits sum.splits option.splits)

lemma list_batches_envelope:
  assumes "fst (list_batches rp self rq) = Inr resp"
  shows "is_envelope True True resp"
  using assms is_envelope_get_metadata [of "Some _" rq _ 200]
  by (auto simp: list_batches_def Let_def split: prod.splits sum.splits)

lemma fetch_batch_envelope:
  assumes "fst (fetch_batch rp self rq) = Inr resp"
  shows "is_envelope True True resp"
  using assms is_envelope_get_metadata [of "Some _" rq _ 200]
  by (auto simp: fetch_batch_def Let_def split: prod.splits sum.splits option.splits)

text \<open>
  Claim C7, as the code has it. The handlers pass \<^verbatim>\<open>_wrap_response\<close> one of three
  things as metadata: nothing, the dictionary with the single key \<open>link\<close>, or the
  result of \<^verbatim>\<open>_get_metadata\<close>. For each of them the response is an envelope whose
  body has the key \<open>data\<close> exactly when the data is not \<^verbatim>\<open>None\<close>, so that absent data
  is left out and never written as null, and the key \<open>link\<close> exactly when there is
  metadata; every object of the body is written with its keys in ascending order.
  Whatever one of the eight handlers returns is such an envelope, or an error
  response in the case of \<^verbatim>\<open>submit_batches\<close> and \<^verbatim>\<open>list_statuses\<close>. The envelope
  of \<^verbatim>\<open>submit_batches\<close> has a link, and data exactly when its status is 200. The
  envelope of \<^verbatim>\<open>list_statuses\<close> has data, and a link exactly when the request is no
  \<open>POST\<close>. The envelopes of the six reading handlers have data and a link.
\<close>

theorem gateway_envelopes:
  "(metadata = None \<or> metadata = Some [(''link'', JStr l)]
      \<or> metadata = Some (get_metadata rq' rs) \<longrightarrow>
      is_envelope (data \<noteq> None) (metadata \<noteq> None) (wrap_response data metadata st))
   \<and> (\<forall>resp. fst (submit_batches pb self rq) = Inr resp \<longrightarrow>
         (\<exists>e. resp = ErrorResponse e) \<or> is_envelope (response_status resp = 200) True resp)
   \<and> (\<forall>resp. fst (list_statuses pb self rq) = Inr resp \<longrightarrow>
         (\<exists>e. resp = ErrorResponse e)
         \<or> is_envelope True (request_method rq \<noteq> ''POST'') resp)
   \<and> (\<forall>resp. fst (list_state rp self rq) = Inr resp \<longrightarrow> is_envelope True True resp)
   \<and> (\<forall>resp. fst (fetch_state rp self rq) = Inr resp \<longrightarrow> is_envelope True True resp)
   \<and> (\<forall>resp. fst (list_blocks rp self rq) = Inr resp \<longrightarrow> is_envelope True True resp)
   \<and> (\<forall>resp. fst (fetch_block rp self rq) = Inr resp \<longrightarrow> is_envelope True True resp)
   \<and> (\<forall>resp. fst (list_batches rp self rq) = Inr resp \<longrightarrow> is_envelope True True resp)
   \<and> (\<forall>resp. fst (fetch_batch rp self rq) = Inr resp \<longrightarrow> is_envelope True True resp)"
proof (intro conjI allI impI)
  assume "metadata = None \<or> metadata = Some [(''link'', JStr l)]
            \<or> metadata = Some (get_metadata rq' rs)"
  then show "is_envelope (data \<noteq> None) (metadata \<noteq> None) (wrap_response data metadata st)"
    by (rule is_envelope_wrap)
next
  fix resp assume "fst (submit_batches pb self rq) = Inr resp"
  then show "(\<exists>e. resp = ErrorResponse e) \<or> is_envelope (response_status resp = 200) True resp"
    by (rule submit_batches_envelope)
next
  fix resp assume "fst (list_statuses pb self rq) = Inr resp"
  then show "(\<exists>e. resp = ErrorResponse e)
               \<or> is_envelope True (request_method rq \<noteq> ''POST'') resp"
    by (rule list_statuses_envelope)
next
  fix resp assume "fst (list_state rp self rq) = Inr resp"
  then show "is_envelope True True resp" by (rule list_state_envelope)
next
  fix resp assume "fst (fetch_state rp self rq) = Inr resp"
  then show "is_envelope True True resp" by (rule fetch_state_envelope)
next
  fix resp assume "fst (list_blocks rp self rq) = Inr resp"
  then show "is_envelope True True resp" by (rule list_blocks_envelope)
next
  fix resp assume "fst (fetch_block rp self rq) = Inr resp"
  then show "is_envelope True True resp" by (rule fetch_block_envelope)
next
  fix resp assume "fst (list_batches rp self rq) = Inr resp"
  then show "is_envelope True True resp" by (rule list_batches_envelope)
next
  fix resp assume "fst (fetch_batch rp self rq) = Inr resp"
  then show "is_envelope True True resp" by (rule fetch_batch_envelope)
qed

theorem gateway_envelopes_witness:
  "fst (list_statuses (example_pb 1 [(''aaa'', ''PENDING'')]) example_handler
          (http_request ''GET'' ''/batch_status'' [(''id'', ''aaa'')] [] [] None))
     = Inr (Response 200 ''application/json''
              (JObj [(''data'', JObj [(''aaa'', JStr ''PENDING'')]),
                     (''link'', JStr ''http://localhost:8080/batch_status?id=aaa'')]))
   \<and> is_envelope True True
         (Response 200 ''application/json''
              (JObj [(''data'', JObj [(''aaa'', JStr ''PENDING'')]),
                     (''link'', JStr ''http://localhost:8080/batch_status?id=aaa'')]))
   \<and> fst (list_blocks (example_read_pb 1 (Some ''abc'') []) example_handler
          (http_request ''GET'' ''/blocks'' [] [] [] None))
     = Inr (Response 200 ''application/json''
              (JObj [(''data'', JArr []), (''head'', JStr ''abc''),
                     (''link'', JStr ''http://localhost:8080/blocks?head=abc'')]))
   \<and> is_envelope True True
         (Response 200 ''application/json''
              (JObj [(''data'', JArr []), (''head'', JStr ''abc''),
                     (''link'', JStr ''http://localhost:8080/blocks?head=abc'')]))"
proof -
  let ?pb = "example_pb 1 [(''aaa'', ''PENDING'')]"
  let ?rq = "http_request ''GET'' ''/batch_status'' [(''id'', ''aaa'')] [] [] None"
  let ?R = "Response 200 ''application/json''
              (JObj [(''data'', JObj [(''aaa'', JStr ''PENDING'')]),
                     (''link'', JStr ''http://localhost:8080/batch_status?id=aaa'')])"
  let ?rp = "example_read_pb 1 (Some ''abc'') []"
  let ?rq2 = "http_request ''GET'' ''/blocks'' [] [] [] None"
  let ?R2 = "Response 200 ''application/json''
              (JObj [(''data'', JArr []), (''head'', JStr ''abc''),
                     (''link'', JStr ''http://localhost:8080/blocks?head=abc'')])"
  have r: "fst (list_statuses ?pb example_handler ?rq) = Inr ?R"
    by (simp add: list_statuses_def status_ids_def http_request_def
          example_pb_def example_handler_def example_reply_class_def example_wait_lib_def
          ClientBatchStatusRequest_def set_wait_def query_validator_def lower_false
          try_validator_request_def send_def try_response_parse_def check_def
          wrap_response_def statuses_json_def get_metadata_def Let_def)
  have m: "request_method ?rq \<noteq> ''POST''"
    by (simp add: http_request_def)
  have r2: "fst (list_blocks ?rp example_handler ?rq2) = Inr ?R2"
    by (simp add: list_blocks_def get_filter_ids_def http_request_def
          example_read_pb_def example_handler_def query_validator_def
          try_validator_request_def send_def try_response_parse_def check_def
          wrap_response_def get_metadata_def Let_def)
  note g = gateway_envelopes [of _ _ _ _ _ _ ?pb example_handler ?rq]
  note g2 = gateway_envelopes [of _ _ _ _ _ _ _ example_handler ?rq2 ?rp]
  from g r have "(\<exists>e. ?R = ErrorResponse e)
      \<or> is_envelope True (request_method ?rq \<noteq> ''POST'') ?R"
    by blast
  with m have e: "is_envelope True True ?R" by simp
  from g2 r2 have e2: "is_envelope True True ?R2" by blast
  from r e r2 e2 show ?thesis by simp
qed

text \<open>
  Claim C7 as written fails: the answer to a \<open>POST\<close> of batch ids is an envelope of
  the gateway, and its body has the key \<open>data\<close> and no key \<open>link\<close>.
\<close>

theorem list_statuses_post_no_link_counterexample:
  "fst (list_statuses (example_pb 1 [(''aaa'', ''PENDING'')]) example_handler
          (http_request ''POST'' ''/batch_status'' []
             [(''Content-Type'', ''application/json'')] ''[aaa]'' (Some (JArr [JStr ''aaa'']))))
     = Inr (Response 200 ''application/json''
              (JObj [(''data'', JObj [(''aaa'', JStr ''PENDING'')])]))
   \<and> ''link'' \<notin> set (keys (JObj [(''data'', JObj [(''aaa'', JStr ''PENDING'')])]))"
  by (simp add: list_statuses_def status_ids_def http_request_def headers_get_def lower_def
        lower_char_def example_pb_def example_handler_def example_reply_class_def
        example_wait_lib_def ClientBatchStatusRequest_def set_wait_def query_validator_def
        try_validator_request_def send_def try_response_parse_def check_def
        wrap_response_def statuses_json_def Let_def)


subsection \<open>The batch ids of a status request\<close>

lemma split_not_empty: "split c s \<noteq> []"
  by (induction s) (simp_all split: list.splits)

lemma status_ids_get:
  assumes "request_method rq \<noteq> ''POST''"
  shows "status_ids rq =
           (case map_of (query (url rq)) ''id'' of
              None \<Rightarrow> Return (ErrorResponse MissingStatusId)
            | Some v \<Rightarrow> Continue (map JStr (split CHR '','' v)))"
  using assms by (simp add: status_ids_def)

lemma status_ids_post_first_string:
  assumes "request_method rq = ''POST''"
    and "headers_get (headers rq) ''Content-Type'' = Some ''application/json''"
    and "json_body rq = Some (JArr (JStr s # rest))"
  shows "status_ids rq = Continue (JStr s # rest)"
  using assms by (simp add: status_ids_def)

text \<open>
  Claim C8 at a body whose first element is a string and whose second is a number:
  \<^verbatim>\<open>list_statuses\<close> looks at the first element only, takes the ids for good and
  goes on to build the validator query, where Protobuf raises \<^verbatim>\<open>TypeError\<close>. No
  error response is returned.
\<close>

theorem list_statuses_checks_first_id_only:
  "status_ids (http_request ''POST'' ''/batch_status'' []
       [(''Content-Type'', ''application/json'')] ''[aaa, 7]''
       (Some (JArr [JStr ''aaa'', JInt 7])))
     = Continue [JStr ''aaa'', JInt 7]
   \<and> list_statuses (example_pb 1 [(''aaa'', ''PENDING'')]) example_handler
         (http_request ''POST'' ''/batch_status'' []
            [(''Content-Type'', ''application/json'')] ''[aaa, 7]''
            (Some (JArr [JStr ''aaa'', JInt 7])))
     = (Inl TypeError, example_handler)"
  by (simp add: list_statuses_def status_ids_def http_request_def headers_get_def lower_def
        lower_char_def ClientBatchStatusRequest_def Let_def)


subsection \<open>Submitting batches\<close>

lemma json_dumps_statuses:
  "json_dumps (statuses_json m) = JObj (sort_key fst (map (\<lambda>(k, s). (k, JStr s)) m))"
proof -
  have eq: "map (map_prod id json_dumps) (map (\<lambda>(k, s). (k, JStr s)) m)
              = map (\<lambda>(k, s). (k, JStr s)) m"
    by (induction m) auto
  show ?thesis by (simp only: statuses_json_def json_dumps.simps eq)
qed

lemma wrap_response_link_only:
  "wrap_response None (Some [(''link'', JStr l)]) st =
     Response st ''application/json'' (JObj [(''link'', JStr l)])"
  by (simp add: wrap_response_def)

lemma wrap_response_link_data:
  "wrap_response (Some (statuses_json m)) (Some [(''link'', JStr l)]) st =
     Response st ''application/json''
       (JObj [(''data'', JObj (sort_key fst (map (\<lambda>(k, s). (k, JStr s)) m))),
              (''link'', JStr l)])"
proof -
  have "json_dumps (JObj [(''link'', JStr l), (''data'', statuses_json m)])
          = JObj [(''data'', json_dumps (statuses_json m)), (''link'', JStr l)]"
    by simp
  then show ?thesis
    by (simp add: wrap_response_def json_dumps_statuses del: json_dumps.simps)
qed

text \<open>
  What \<^verbatim>\<open>submit_batches\<close> answers once the request has passed the checks of its
  content type and body, \<^verbatim>\<open>_set_wait\<close> has given the query, and the validator query
  has given the decoded reply \<open>response\<close>. \<open>link\<close> is the link to the batch status
  resource: scheme, host, \<open>/batch_status?id=\<close> and the signatures of the submitted
  batches in their order, with commas between them. Without batch statuses the answer
  is 202 with this link and no data. When some status is not \<open>COMMITTED\<close> the answer
  is 200 with this link and the statuses as data. When there are statuses and all are
  \<open>COMMITTED\<close> the answer is 201 without data, and its link is the first link in
  which \<^verbatim>\<open>str.replace\<close> has put \<open>batches\<close> for \<open>batch_status\<close> wherever it stands:
  in the path segment, and in scheme, host and signatures as well.
\<close>

lemma submit_batches_answer:
  assumes ctype: "headers_get (headers rq) ''Content-Type'' = Some ''application/octet-stream''"
    and payload: "read rq \<noteq> []"
    and parsed: "BatchList_ParseFromString pb (read rq) = Some batch_list"
    and waits: "set_wait (waiting pb) self rq
                  \<lparr>wait_for_commit = False, timeout = 0, batches = batch_list\<rparr> = Inr validator_query"
    and reply: "fst (query_validator (ClientBatchSubmitRequest_SerializeToString pb) self
                  CLIENT_BATCH_SUBMIT_REQUEST (ClientBatchSubmitResponse pb)
                  (Message validator_query) (Some [InvalidBatch_trap pb])) = Inr response"
    and link: "link = scheme rq @ ''://'' @ host rq @ ''/batch_status?id=''
                       @ join '','' (map header_signature batch_list)"
  shows "fst (submit_batches pb self rq) =
           Inr (if batch_statuses response = []
                then Response 202 ''application/json'' (JObj [(''link'', JStr link)])
                else if \<exists>(k, s) \<in> set (batch_statuses response). s \<noteq> ''COMMITTED''
                then Response 200 ''application/json''
                       (JObj [(''data'', JObj (sort_key fst
                                 (map (\<lambda>(k, s). (k, JStr s)) (batch_statuses response)))),
                              (''link'', JStr link)])
                else Response 201 ''application/json''
                       (JObj [(''link'', JStr (replace link ''batch_status'' ''batches''))]))
         \<and> replace link ''batch_status'' ''batches'' =
             replace (scheme rq) ''batch_status'' ''batches'' @ ''://''
             @ replace (host rq) ''batch_status'' ''batches'' @ ''/batches?id=''
             @ replace (join '','' (map header_signature batch_list)) ''batch_status'' ''batches''"
proof -
  let ?q = "query_validator (ClientBatchSubmitRequest_SerializeToString pb) self
              CLIENT_BATCH_SUBMIT_REQUEST (ClientBatchSubmitResponse pb)
              (Message validator_query) (Some [InvalidBatch_trap pb])"
  obtain self' where q: "?q = (Inr response, self')"
    using reply by (cases ?q) simp
  have ex: "list_ex (\<lambda>(_, s). s \<noteq> ''COMMITTED'') m \<longleftrightarrow> (\<exists>(k, s) \<in> set m. s \<noteq> ''COMMITTED'')"
    for m :: "(string \<times> string) list"
    by (simp add: list_ex_iff)
  have answer: "fst (submit_batches pb self rq) =
           Inr (if batch_statuses response = []
                then Response 202 ''application/json'' (JObj [(''link'', JStr link)])
                else if \<exists>(k, s) \<in> set (batch_statuses response). s \<noteq> ''COMMITTED''
                then Response 200 ''application/json''
                       (JObj [(''data'', JObj (sort_key fst
                                 (map (\<lambda>(k, s). (k, JStr s)) (batch_statuses response)))),
                              (''link'', JStr link)])
                else Response 201 ''application/json''
                       (JObj [(''link'', JStr (replace link ''batch_status'' ''batches''))]))"
    using ctype payload parsed waits q link
    by (simp add: submit_batches_def Let_def ex wrap_response_link_only
          wrap_response_link_data)
  have rewritten: "replace link ''batch_status'' ''batches'' =
             replace (scheme rq) ''batch_status'' ''batches'' @ ''://''
             @ replace (host rq) ''batch_status'' ''batches'' @ ''/batches?id=''
             @ replace (join '','' (map header_signature batch_list)) ''batch_status'' ''batches''"
    unfolding link by (rule batches_link)
  from answer rewritten show ?thesis by (rule conjI)
qed

text \<open>
  Claim C1 at a request whose \<open>Host\<close> header holds the text \<open>batch_status\<close>. Two
  batches \<open>a\<close> and \<open>b\<close> are submitted to \<open>batch_status.example.com\<close>. While the
  validator reports no statuses the answer is 202 with the link
  \<open>http://batch_status.example.com/batch_status?id=a,b\<close>. When it reports both as
  \<open>COMMITTED\<close> the answer is 201 without data, but the link is not this link with the
  path segment changed: the replacement has changed the host too, and the link
  points to \<open>batches.example.com\<close>.
\<close>

theorem submit_batches_rewrites_host:
  "fst (submit_batches (example_pb 1 []) example_handler
          ((http_request ''POST'' ''/batches'' [(''wait'', ''true'')]
              [(''Content-Type'', ''application/octet-stream'')] ''a;b'' None)
           \<lparr>host := ''batch_status.example.com''\<rparr>))
     = Inr (Response 202 ''application/json''
              (JObj [(''link'', JStr ''http://batch_status.example.com/batch_status?id=a,b'')]))
   \<and> fst (submit_batches (example_pb 1 [(''a'', ''COMMITTED''), (''b'', ''COMMITTED'')])
          example_handler
          ((http_request ''POST'' ''/batches'' [(''wait'', ''true'')]
              [(''Content-Type'', ''application/octet-stream'')] ''a;b'' None)
           \<lparr>host := ''batch_status.example.com''\<rparr>))
     = Inr (Response 201 ''application/json''
              (JObj [(''link'', JStr ''http://batches.example.com/batches?id=a,b'')]))
   \<and> ''http://batches.example.com/batches?id=a,b''
       \<noteq> ''http://batch_status.example.com/batches?id=a,b''"
proof -
  let ?rq = "(http_request ''POST'' ''/batches'' [(''wait'', ''true'')]
               [(''Content-Type'', ''application/octet-stream'')] ''a;b'' None)
             \<lparr>host := ''batch_status.example.com''\<rparr>"
  let ?bl = "[\<lparr>header_signature = ''a''\<rparr>, \<lparr>header_signature = ''b''\<rparr>]"
  let ?vq = "\<lparr>wait_for_commit = True, timeout = 285, batches = ?bl\<rparr>"
  have h1: "headers_get (headers ?rq) ''Content-Type'' = Some ''application/octet-stream''"
    by code_simp
  have h2: "read ?rq \<noteq> []"
    by (simp add: http_request_def)
  have h3: "BatchList_ParseFromString (example_pb st m) (read ?rq) = Some ?bl" for st m
    by (simp add: http_request_def example_pb_def)
  have lw: "lower ''true'' \<noteq> ''false''" by code_simp
  have h4: "set_wait (waiting (example_pb st m)) example_handler ?rq
              \<lparr>wait_for_commit = False, timeout = 0, batches = ?bl\<rparr> = Inr ?vq" for st m
    using lw
    by (simp add: set_wait_def http_request_def example_pb_def example_wait_lib_def
          example_handler_def)
  have h5: "fst (query_validator
                  (ClientBatchSubmitRequest_SerializeToString (example_pb 1 m)) example_handler
                  CLIENT_BATCH_SUBMIT_REQUEST (ClientBatchSubmitResponse (example_pb 1 m))
                  (Message ?vq) (Some [InvalidBatch_trap (example_pb 1 m)]))
              = Inr \<lparr>head_id = None, batch_statuses = m\<rparr>" for m
    by (simp add: query_validator_def try_validator_request_def send_def
          try_response_parse_def check_def example_pb_def example_handler_def
          example_reply_class_def Let_def)
  have pending: "fst (submit_batches (example_pb 1 []) example_handler ?rq)
     = Inr (Response 202 ''application/json''
              (JObj [(''link'', JStr ''http://batch_status.example.com/batch_status?id=a,b'')]))"
    using submit_batches_answer [OF h1 h2 h3 h4 h5 refl, THEN conjunct1]
    by (simp add: http_request_def)
  have committed:
    "fst (submit_batches (example_pb 1 [(''a'', ''COMMITTED''), (''b'', ''COMMITTED'')])
            example_handler ?rq)
     = Inr (Response 201 ''application/json''
              (JObj [(''link'', JStr ''http://batches.example.com/batches?id=a,b'')]))"
    using submit_batches_answer [OF h1 h2 h3 h4 h5 refl, THEN conjunct1]
    by (simp add: http_request_def replace_def)
  from pending committed show ?thesis by simp
qed


subsection \<open>A request without a content type\<close>

text \<open>
  Claim C10. When the request has no \<open>Content-Type\<close> header, \<^verbatim>\<open>submit_batches\<close>
  raises \<^verbatim>\<open>KeyError\<close>, and so does \<^verbatim>\<open>list_statuses\<close> for a \<open>POST\<close>; nothing is sent
  to the validator. \<^verbatim>\<open>submit_batches\<close> returns \<open>WrongBodyType\<close> exactly when the
  header is there with a value other than \<open>application/octet-stream\<close>. For a \<open>POST\<close>,
  \<^verbatim>\<open>list_statuses\<close> returns \<open>BadStatusBody\<close> when the header is there with a value
  other than \<open>application/json\<close>, and whenever it returns \<open>BadStatusBody\<close> the header
  is there.
\<close>

theorem missing_content_type_raises:
  "(headers_get (headers rq) ''Content-Type'' = None \<longrightarrow>
      submit_batches pb self rq = (Inl KeyError, self)
      \<and> (request_method rq = ''POST'' \<longrightarrow> list_statuses pb self rq = (Inl KeyError, self)))
   \<and> (fst (submit_batches pb self rq) = Inr (ErrorResponse WrongBodyType) \<longleftrightarrow>
        (\<exists>ct. headers_get (headers rq) ''Content-Type'' = Some ct
              \<and> ct \<noteq> ''application/octet-stream''))
   \<and> (request_method rq = ''POST'' \<longrightarrow>
        (\<forall>ct. headers_get (headers rq) ''Content-Type'' = Some ct \<and> ct \<noteq> ''application/json''
           \<longrightarrow> list_statuses pb self rq = (Inr (ErrorResponse BadStatusBody), self))
        \<and> (fst (list_statuses pb self rq) = Inr (ErrorResponse BadStatusBody)
           \<longrightarrow> headers_get (headers rq) ''Content-Type'' \<noteq> None))"
proof (intro conjI impI allI)
  assume "headers_get (headers rq) ''Content-Type'' = None"
  then show "submit_batches pb self rq = (Inl KeyError, self)"
    by (simp add: submit_batches_def)
next
  assume "headers_get (headers rq) ''Content-Type'' = None" "request_method rq = ''POST''"
  then show "list_statuses pb self rq = (Inl KeyError, self)"
    by (simp add: list_statuses_def status_ids_def)
next
  show "fst (submit_batches pb self rq) = Inr (ErrorResponse WrongBodyType) \<longleftrightarrow>
        (\<exists>ct. headers_get (headers rq) ''Content-Type'' = Some ct
              \<and> ct \<noteq> ''application/octet-stream'')"
    by (auto simp: submit_batches_def Let_def wrap_response_def
             split: option.splits prod.splits sum.splits if_splits)
next
  fix ct
  assume "request_method rq = ''POST''"
    "headers_get (headers rq) ''Content-Type'' = Some ct \<and> ct \<noteq> ''application/json''"
  then show "list_statuses pb self rq = (Inr (ErrorResponse BadStatusBody), self)"
    by (simp add: list_statuses_def status_ids_def)
next
  assume "request_method rq = ''POST''"
    "fst (list_statuses pb self rq) = Inr (ErrorResponse BadStatusBody)"
  then show "headers_get (headers rq) ''Content-Type'' \<noteq> None"
    by (cases "headers_get (headers rq) ''Content-Type''")
       (simp_all add: list_statuses_def status_ids_def)
qed

theorem missing_content_type_raises_witness:
  "submit_batches (example_pb 1 []) example_handler
     (http_request ''POST'' ''/batches'' [] [] ''a;b'' None) = (Inl KeyError, example_handler)
   \<and> list_statuses (example_pb 1 []) example_handler
     (http_request ''POST'' ''/batch_status'' [] [] ''[a]'' (Some (JArr [JStr ''a''])))
       = (Inl KeyError, example_handler)
   \<and> fst (submit_batches (example_pb 1 []) example_handler
     (http_request ''POST'' ''/batches'' [] [(''Content-Type'', ''text/plain'')] ''a;b'' None))
       = Inr (ErrorResponse WrongBodyType)
   \<and> list_statuses (example_pb 1 []) example_handler
     (http_request ''POST'' ''/batch_status'' [] [(''Content-Type'', ''text/plain'')] ''[a]''
        (Some (JArr [JStr ''a''])))
       = (Inr (ErrorResponse BadStatusBody), example_handler)"
proof -
  let ?pb = "example_pb 1 [] :: (nat \<times> (string \<times> string) list, nat \<times> (string \<times> string) list) client_pb2"
  let ?r1 = "http_request ''POST'' ''/batches'' [] [] ''a;b'' None"
  let ?r2 = "http_request ''POST'' ''/batch_status'' [] [] ''[a]'' (Some (JArr [JStr ''a'']))"
  let ?r3 = "http_request ''POST'' ''/batches'' [] [(''Content-Type'', ''text/plain'')] ''a;b'' None"
  let ?r4 = "http_request ''POST'' ''/batch_status'' [] [(''Content-Type'', ''text/plain'')] ''[a]''
        (Some (JArr [JStr ''a'']))"
  have n1: "headers_get (headers ?r1) ''Content-Type'' = None" by code_simp
  have n2: "headers_get (headers ?r2) ''Content-Type'' = None" by code_simp
  have p2: "request_method ?r2 = ''POST''" by (simp add: http_request_def)
  have s3: "headers_get (headers ?r3) ''Content-Type'' = Some ''text/plain''" by code_simp
  have s4: "headers_get (headers ?r4) ''Content-Type'' = Some ''text/plain''" by code_simp
  have p4: "request_method ?r4 = ''POST''" by (simp add: http_request_def)
  have a: "submit_batches ?pb example_handler ?r1 = (Inl KeyError, example_handler)"
    using missing_content_type_raises [of ?r1 ?pb example_handler] n1 by blast
  have b: "list_statuses ?pb example_handler ?r2 = (Inl KeyError, example_handler)"
    using missing_content_type_raises [of ?r2 ?pb example_handler] n2 p2 by blast
  have c: "fst (submit_batches ?pb example_handler ?r3) = Inr (ErrorResponse WrongBodyType)"
    using missing_content_type_raises [of ?r3 ?pb example_handler] s3 by simp
  have d: "list_statuses ?pb example_handler ?r4 = (Inr (ErrorResponse BadStatusBody), example_handler)"
    using missing_content_type_raises [of ?r4 ?pb example_handler] s4 p4 by simp
  from a b c d show ?thesis by simp
qed


end
